theory Spec2Isabelle
  imports Complex_Main "HOL-Library.Sublist"
begin

section \<open>JavaScript values\<close>

text \<open>
  The validator reads a JSON document and works on its values with the coercions of
  JavaScript. A number is \<open>NaN\<close>, an infinity or a finite number, which is given by its
  exact value. Zero has no sign in the model: the program prints a zero without its
  sign, and it divides by no number that it has not tested to be above zero. A field
  value is a JSON primitive or absent (\<open>undefined\<close>); an array or an object as the
  value of a numeric field is outside the model.
\<close>

datatype jsnum = NaN | Fin rat | PInf | NInf

datatype jsval = JUndefined | JNull | JBool bool | JNum jsnum | JStr string

text \<open>One row of \<open>getTopUtilizedLocations\<close> (name, capacity, available, utilization).\<close>

record top_entry =
  te_name :: jsval
  te_capacity :: jsval
  te_available :: jsval
  te_utilization :: string

text \<open>
  Built-in functions of the language whose exact behaviour belongs to the engine are
  parameters of the model: \<open>Number\<close> applied to a string, \<open>String\<close> applied to a
  number, \<open>Number.prototype.toFixed(1)\<close>, and \<open>Array.prototype.sort\<close> with the
  comparator \<open>(a, b) => b.utilization - a.utilization\<close>.
\<close>

record builtins =
  str_num :: "string \<Rightarrow> jsnum"
  num_str :: "jsnum \<Rightarrow> string"
  toFixed1 :: "jsnum \<Rightarrow> string"
  sort_by_utilization :: "top_entry list \<Rightarrow> top_entry list"

text \<open>\<open>ToNumber\<close>, \<open>ToBoolean\<close> and \<open>ToString\<close> on primitives.\<close>

fun toNumber :: "builtins \<Rightarrow> jsval \<Rightarrow> jsnum" where
  "toNumber b JUndefined = NaN"
| "toNumber b JNull = Fin 0"
| "toNumber b (JBool t) = (if t then Fin 1 else Fin 0)"
| "toNumber b (JNum n) = n"
| "toNumber b (JStr s) = str_num b s"

fun truthy :: "jsval \<Rightarrow> bool" where
  "truthy JUndefined = False"
| "truthy JNull = False"
| "truthy (JBool t) = t"
| "truthy (JNum NaN) = False"
| "truthy (JNum (Fin x)) = (x \<noteq> 0)"
| "truthy (JNum PInf) = True"
| "truthy (JNum NInf) = True"
| "truthy (JStr s) = (s \<noteq> [])"

fun toString :: "builtins \<Rightarrow> jsval \<Rightarrow> string" where
  "toString b JUndefined = ''undefined''"
| "toString b JNull = ''null''"
| "toString b (JBool t) = (if t then ''true'' else ''false'')"
| "toString b (JNum n) = num_str b n"
| "toString b (JStr s) = s"

text \<open>\<open>a || b\<close>: the left operand when it is truthy, else the right one.\<close>

definition js_or :: "jsval \<Rightarrow> jsval \<Rightarrow> jsval" where
  "js_or a c = (if truthy a then a else c)"

text \<open>\<open>a === b\<close> on primitives: \<open>NaN\<close> is not equal to itself.\<close>

definition strict_eq :: "jsval \<Rightarrow> jsval \<Rightarrow> bool" where
  "strict_eq a c = (a = c \<and> a \<noteq> JNum NaN)"

definition strict_ne :: "jsval \<Rightarrow> jsval \<Rightarrow> bool" where
  "strict_ne a c = (\<not> strict_eq a c)"

subsection \<open>The arithmetic of doubles\<close>

text \<open>
  The result of an operation on two finite numbers is the exact result rounded to the
  nearest double, a tie to the one with the even significand (53 binary digits, the
  exponent of the last digit not below \<open>-1074\<close>); a rounded result of \<open>2\<^sup>1\<^sup>0\<^sup>2\<^sup>4\<close> or
  more is an infinity. The rounding works on the numerator \<open>a\<close> and the denominator \<open>c\<close>
  of the absolute value: \<open>bit_length a\<close> is the number of binary digits of \<open>a\<close>,
  \<open>pow2 k\<close> is \<open>2\<^sup>k\<close> for \<open>k \<ge> 0\<close> and 1 for \<open>k < 0\<close>, \<open>binade a c\<close> is the exponent \<open>e\<close> with
  \<open>2\<^sup>e \<le> a / c < 2\<^sup>e\<^sup>+\<^sup>1\<close>, and \<open>round_even n d\<close> is the integer nearest to \<open>n / d\<close>, the
  even one at a tie.
\<close>

function bit_length :: "int \<Rightarrow> int" where
  "bit_length a = (if a \<le> 0 then 0 else 1 + bit_length (a div 2))"
  by pat_completeness auto
termination
  by (relation "measure nat") auto

declare bit_length.simps [simp del]

function pow2 :: "int \<Rightarrow> int" where
  "pow2 k = (if k \<le> 0 then 1 else 2 * pow2 (k - 1))"
  by pat_completeness auto
termination
  by (relation "measure nat") auto

declare pow2.simps [simp del]

definition binade :: "int \<Rightarrow> int \<Rightarrow> int" where
  "binade a c =
     (let e = bit_length a - bit_length c
      in if a * pow2 (- e) < c * pow2 e then e - 1 else e)"

definition round_even :: "int \<Rightarrow> int \<Rightarrow> int" where
  "round_even n d =
     (let k = n div d; r = n mod d
      in if 2 * r < d then k else if d < 2 * r then k + 1
         else if even k then k else k + 1)"

text \<open>
  \<open>fl q\<close> is the double of the exact value \<open>q\<close>: with \<open>e\<close> the exponent of the last
  binary digit, the significand \<open>m\<close> is \<open>\<bar>q\<bar> / 2\<^sup>e\<close> rounded, and the result is
  \<open>m * 2\<^sup>e\<close> with the sign of \<open>q\<close>, or the infinity of that sign when \<open>m * 2\<^sup>e\<close> is
  \<open>2\<^sup>1\<^sup>0\<^sup>2\<^sup>4\<close> or more, which takes an \<open>e\<close> of 970 at least.
\<close>

definition fl :: "rat \<Rightarrow> jsnum" where
  "fl q =
     (if q = 0 then Fin 0
      else
        (let a = \<bar>fst (quotient_of q)\<bar>; c = snd (quotient_of q);
             e = max (binade a c) (- 1022) - 52;
             m = round_even (a * pow2 (- e)) (c * pow2 e);
             r = of_int (m * pow2 e) / of_int (pow2 (- e))
         in if 970 \<le> e \<and> pow2 1024 \<le> m * pow2 e then (if 0 < q then PInf else NInf)
            else Fin (if 0 < q then r else - r)))"

fun isNaN :: "jsnum \<Rightarrow> bool" where
  "isNaN NaN = True"
| "isNaN n = False"

text \<open>The sign of a number: 1, 0 or -1 (0 for zero and for \<open>NaN\<close>).\<close>

fun num_sign :: "jsnum \<Rightarrow> int" where
  "num_sign NaN = 0"
| "num_sign (Fin x) = (if 0 < x then 1 else if x < 0 then - 1 else 0)"
| "num_sign PInf = 1"
| "num_sign NInf = - 1"

fun num_neg :: "jsnum \<Rightarrow> jsnum" where
  "num_neg NaN = NaN"
| "num_neg (Fin x) = Fin (- x)"
| "num_neg PInf = NInf"
| "num_neg NInf = PInf"

text \<open>\<open>a + b\<close> on numbers: the sum of two opposite infinities is \<open>NaN\<close>.\<close>

fun num_add :: "jsnum \<Rightarrow> jsnum \<Rightarrow> jsnum" where
  "num_add (Fin x) (Fin y) = fl (x + y)"
| "num_add NaN c = NaN"
| "num_add a NaN = NaN"
| "num_add PInf NInf = NaN"
| "num_add NInf PInf = NaN"
| "num_add PInf c = PInf"
| "num_add NInf c = NInf"
| "num_add a PInf = PInf"
| "num_add a NInf = NInf"

text \<open>\<open>a - b\<close> is the sum of \<open>a\<close> and the opposite of \<open>b\<close>.\<close>

definition num_sub :: "jsnum \<Rightarrow> jsnum \<Rightarrow> jsnum" where
  "num_sub a c = num_add a (num_neg c)"

text \<open>\<open>a * b\<close>: an infinity times zero is \<open>NaN\<close>.\<close>

fun num_mul :: "jsnum \<Rightarrow> jsnum \<Rightarrow> jsnum" where
  "num_mul (Fin x) (Fin y) = fl (x * y)"
| "num_mul a c =
     (if isNaN a \<or> isNaN c \<or> num_sign a * num_sign c = 0 then NaN
      else if 0 < num_sign a * num_sign c then PInf else NInf)"

text \<open>
  \<open>a / b\<close>: an infinity by an infinity is \<open>NaN\<close>, a finite number by an infinity is
  zero, and the quotient by zero is the one by the zero of positive sign.
\<close>

fun num_quot :: "jsnum \<Rightarrow> jsnum \<Rightarrow> jsnum" where
  "num_quot (Fin x) (Fin y) =
     (if y = 0 then (if x = 0 then NaN else if 0 < x then PInf else NInf)
      else fl (x / y))"
| "num_quot a c =
     (if isNaN a \<or> isNaN c then NaN
      else case c of
             Fin y \<Rightarrow> if (0 < num_sign a) = (0 \<le> y) then PInf else NInf
           | _ \<Rightarrow> (case a of Fin x \<Rightarrow> Fin 0 | _ \<Rightarrow> NaN))"

text \<open>Comparison of numbers; any comparison with \<open>NaN\<close> is false.\<close>

fun num_lt :: "jsnum \<Rightarrow> jsnum \<Rightarrow> bool" where
  "num_lt (Fin x) (Fin y) = (x < y)"
| "num_lt NaN c = False"
| "num_lt a NaN = False"
| "num_lt PInf c = False"
| "num_lt a NInf = False"
| "num_lt NInf c = True"
| "num_lt a PInf = True"

definition num_gt :: "jsnum \<Rightarrow> jsnum \<Rightarrow> bool" where
  "num_gt a c = num_lt c a"

definition num_ge :: "jsnum \<Rightarrow> jsnum \<Rightarrow> bool" where
  "num_ge a c = (\<not> isNaN a \<and> \<not> isNaN c \<and> \<not> num_lt a c)"

text \<open>\<open>Math.round\<close> rounds to the nearest integer, a tie towards plus infinity.\<close>

fun Math_round :: "jsnum \<Rightarrow> jsnum" where
  "Math_round (Fin x) = Fin (of_int \<lfloor>x + 1 / 2\<rfloor>)"
| "Math_round n = n"

definition Math_max :: "jsnum \<Rightarrow> jsnum \<Rightarrow> jsnum" where
  "Math_max a c = (if isNaN a \<or> isNaN c then NaN else if num_lt a c then c else a)"

definition Math_min :: "jsnum \<Rightarrow> jsnum \<Rightarrow> jsnum" where
  "Math_min a c = (if isNaN a \<or> isNaN c then NaN else if num_lt c a then c else a)"

text \<open>
  \<open>a + b\<close>: concatenation of the two operands as strings when either is a string,
  else the sum of the two as numbers.
\<close>

fun is_string :: "jsval \<Rightarrow> bool" where
  "is_string (JStr s) = True"
| "is_string _ = False"

definition js_add :: "builtins \<Rightarrow> jsval \<Rightarrow> jsval \<Rightarrow> jsval" where
  "js_add b a c =
     (if is_string a \<or> is_string c then JStr (toString b a @ toString b c)
      else JNum (num_add (toNumber b a) (toNumber b c)))"

text \<open>\<open>s.includes(sub)\<close>: \<open>sub\<close> occurs in \<open>s\<close> as a contiguous block.\<close>

fun str_includes :: "string \<Rightarrow> string \<Rightarrow> bool" where
  "str_includes [] sub = (sub = [])"
| "str_includes (c # cs) sub = (prefix sub (c # cs) \<or> str_includes cs sub)"

section \<open>Configuration and logging\<close>

text \<open>
  The configuration of \<open>ParkingDataValidator\<close> (the defaults of the constructor merged
  with the command line). The vehicle types are the fixed list
  \<open>['bus', 'mobil', 'motor']\<close>.
\<close>

datatype vtype = Bus | Mobil | Motor

definition allowedVehicleTypes :: "vtype list" where
  "allowedVehicleTypes = [Bus, Mobil, Motor]"

fun type_name :: "vtype \<Rightarrow> string" where
  "type_name Bus = ''bus''"
| "type_name Mobil = ''mobil''"
| "type_name Motor = ''motor''"

record config =
  minCapacity :: rat
  maxCapacity :: rat
  utilizationWarning :: rat
  utilizationCritical :: rat
  maxProcessingTime :: int
  batchSize :: nat
  mode :: string
  max_backups :: nat
  dry_run :: bool
  force :: bool
  backup :: bool
  log_level :: string

definition default_config :: config where
  "default_config =
     \<lparr> minCapacity = 0, maxCapacity = 1000,
       utilizationWarning = 80, utilizationCritical = 95,
       maxProcessingTime = 30000, batchSize = 50,
       mode = ''strict'', max_backups = 10,
       dry_run = False, force = False, backup = True, log_level = ''info'' \<rparr>"

datatype level = ERROR | WARN | INFO | DEBUG

fun level_num :: "level \<Rightarrow> nat" where
  "level_num ERROR = 0"
| "level_num WARN = 1"
| "level_num INFO = 2"
| "level_num DEBUG = 3"

text \<open>
  The object \<open>logLevels\<close> of \<open>setupLogger\<close> is an object literal, so that
  \<open>logLevels[key]\<close> finds its four own properties and, for any other key, what it
  inherits from \<open>Object.prototype\<close>: a function under eleven names and the prototype
  itself under \<open>__proto__\<close>.
\<close>

definition inherited_names :: "string list" where
  "inherited_names =
     [''constructor'', ''__defineGetter__'', ''__defineSetter__'', ''hasOwnProperty'',
      ''__lookupGetter__'', ''__lookupSetter__'', ''isPrototypeOf'',
      ''propertyIsEnumerable'', ''toString'', ''valueOf'', ''__proto__'',
      ''toLocaleString'']"

datatype level_value = Own nat | Inherited | Missing

definition logLevels :: "string \<Rightarrow> level_value" where
  "logLevels key =
     (if key = ''error'' then Own 0 else if key = ''warn'' then Own 1
      else if key = ''info'' then Own 2 else if key = ''debug'' then Own 3
      else if key \<in> set inherited_names then Inherited else Missing)"

text \<open>
  \<open>setupLogger\<close>: \<open>this.logLevel = logLevels[this.config['log-level']] || 2\<close>. The number
  0 and \<open>undefined\<close> are falsy; a function or an object is truthy, and the level is
  then no number (\<open>None\<close>).
\<close>

definition logLevel :: "config \<Rightarrow> nat option" where
  "logLevel cfg =
     (case logLevels (log_level cfg) of
        Own k \<Rightarrow> if k = 0 then Some 2 else Some k
      | Inherited \<Rightarrow> None
      | Missing \<Rightarrow> Some 2)"

text \<open>
  \<open>log\<close> (here \<open>logMsg\<close>): the entries a call prints and appends to the log file, none
  when the level is filtered out by \<open>currentLevel <= this.logLevel\<close>. A function or an
  object on the right of \<open><=\<close> is \<open>NaN\<close> as a number, and the comparison is false. The
  timestamp of an entry is not modelled.
\<close>

type_synonym log_entry = "level \<times> string"

definition logMsg :: "config \<Rightarrow> level \<Rightarrow> string \<Rightarrow> log_entry list" where
  "logMsg cfg lv message =
     (case logLevel cfg of
        None \<Rightarrow> []
      | Some n \<Rightarrow> if level_num lv \<le> n then [(lv, message)] else [])"

section \<open>The record processor\<close>

text \<open>
  \<open>location[type]\<close> is absent (\<open>undefined\<close> or \<open>null\<close>), a primitive that is no object
  (with its truth value), or an object with the fields \<open>total\<close> and \<open>available\<close>, each
  \<open>JUndefined\<close> when the object does not have it. A location carries its \<open>name\<close>, the
  field \<open>nama\<close> that the updates validator reads, its three slots and the two fields
  the processor writes.
\<close>

datatype slot_entry = Absent | Prim bool | Slot jsval jsval

record location =
  name :: jsval
  nama :: jsval
  bus :: slot_entry
  mobil :: slot_entry
  motor :: slot_entry
  lastValidated :: jsval
  validationIssues :: jsval

fun get_slot :: "location \<Rightarrow> vtype \<Rightarrow> slot_entry" where
  "get_slot l Bus = bus l"
| "get_slot l Mobil = mobil l"
| "get_slot l Motor = motor l"

fun set_slot :: "location \<Rightarrow> vtype \<Rightarrow> slot_entry \<Rightarrow> location" where
  "set_slot l Bus s = l\<lparr>bus := s\<rparr>"
| "set_slot l Mobil s = l\<lparr>mobil := s\<rparr>"
| "set_slot l Motor s = l\<lparr>motor := s\<rparr>"

text \<open>
  What the run can throw. A division by zero throws nothing in JavaScript: it yields
  \<open>NaN\<close> or an infinity, of a sign that depends on the sign of the zero. The model
  reports a zero divisor as \<open>DivisionByZero\<close>, so that reaching one is a result of
  its own.
\<close>

datatype error =
    TypeError
  | FileNotFound
  | InvalidJSON
  | StructureInvalid "string list"
  | ProcessingTimeout
  | DivisionByZero

definition num_div :: "jsnum \<Rightarrow> jsnum \<Rightarrow> error + jsnum" where
  "num_div a c = (if c = Fin 0 then Inl DivisionByZero else Inr (num_quot a c))"

text \<open>\<open>data.total\<close> and \<open>data.available\<close>; reading a property of \<open>undefined\<close> throws.\<close>

fun slot_total :: "slot_entry \<Rightarrow> error + jsval" where
  "slot_total Absent = Inl TypeError"
| "slot_total (Prim t) = Inr JUndefined"
| "slot_total (Slot t a) = Inr t"

fun slot_available :: "slot_entry \<Rightarrow> error + jsval" where
  "slot_available Absent = Inl TypeError"
| "slot_available (Prim t) = Inr JUndefined"
| "slot_available (Slot t a) = Inr a"

text \<open>\<open>location[type]?.total\<close> and \<open>location[type]?.available\<close>.\<close>

fun opt_total :: "slot_entry \<Rightarrow> jsval" where
  "opt_total (Slot t a) = t"
| "opt_total _ = JUndefined"

fun opt_available :: "slot_entry \<Rightarrow> jsval" where
  "opt_available (Slot t a) = a"
| "opt_available _ = JUndefined"

subsection \<open>Safe number parsing\<close>

text \<open>
  \<open>parseNumber\<close>, with the log entries it writes. The default value is the number 0 at
  every call of the source.
\<close>

definition parseNumber ::
  "builtins \<Rightarrow> config \<Rightarrow> jsval \<Rightarrow> jsnum \<Rightarrow> jsnum \<times> log_entry list" where
  "parseNumber b cfg v defaultValue =
     (if v = JNull \<or> v = JUndefined \<or> v = JStr [] then (defaultValue, [])
      else let num = toNumber b v in
        if isNaN num
        then (defaultValue,
              logMsg cfg WARN (''Invalid number value: '' @ toString b v
                               @ '', using default: '' @ num_str b defaultValue))
        else (Math_max (Fin 0) (Math_round num), []))"

subsection \<open>One vehicle type of one location\<close>

text \<open>
  The object \<open>vehicleData\<close> and the \<open>result\<close> of \<open>processVehicleType\<close> while the rules
  run: the two fields of the slot, the issues and the fixes.
\<close>

record vehicleData =
  vd_total :: jsval
  vd_available :: jsval
  vd_issues :: "string list"
  vd_fixes :: "string list"

text \<open>\<open>if (total < this.config.minCapacity) { ... }\<close>\<close>

definition rule_below_minimum ::
  "builtins \<Rightarrow> config \<Rightarrow> vtype \<Rightarrow> jsnum \<Rightarrow> vehicleData \<Rightarrow> vehicleData" where
  "rule_below_minimum b cfg vehicleType total' d =
     (if num_lt total' (Fin (minCapacity cfg))
      then
        (let d1 = d\<lparr>vd_issues := vd_issues d @
                   [type_name vehicleType @ '': Total capacity ('' @ num_str b total'
                    @ '') below minimum ('' @ num_str b (Fin (minCapacity cfg)) @ '')'']\<rparr>
         in if force cfg
            then d1\<lparr>vd_total := JNum (Fin (minCapacity cfg)),
                    vd_fixes := vd_fixes d1 @
                      [''Forced total capacity to minimum: ''
                       @ num_str b (Fin (minCapacity cfg))]\<rparr>
            else d1)
      else d)"

text \<open>\<open>if (total > this.config.maxCapacity) { ... }\<close>\<close>

definition rule_above_maximum ::
  "builtins \<Rightarrow> config \<Rightarrow> vtype \<Rightarrow> jsnum \<Rightarrow> vehicleData \<Rightarrow> vehicleData" where
  "rule_above_maximum b cfg vehicleType total' d =
     (if num_gt total' (Fin (maxCapacity cfg))
      then
        (let d1 = d\<lparr>vd_issues := vd_issues d @
                   [type_name vehicleType @ '': Total capacity ('' @ num_str b total'
                    @ '') exceeds maximum ('' @ num_str b (Fin (maxCapacity cfg)) @ '')'']\<rparr>
         in if force cfg
            then d1\<lparr>vd_total := JNum (Fin (maxCapacity cfg)),
                    vd_fixes := vd_fixes d1 @
                      [''Capped total capacity to maximum: ''
                       @ num_str b (Fin (maxCapacity cfg))]\<rparr>
            else d1)
      else d)"

text \<open>\<open>if (available < 0) { ... }\<close>\<close>

definition rule_negative_available ::
  "builtins \<Rightarrow> vtype \<Rightarrow> jsnum \<Rightarrow> vehicleData \<Rightarrow> vehicleData" where
  "rule_negative_available b vehicleType available' d =
     (if num_lt available' (Fin 0)
      then d\<lparr>vd_issues := vd_issues d @
                [type_name vehicleType @ '': Negative available spaces (''
                 @ num_str b available' @ '')''],
              vd_available := JNum (Fin 0),
              vd_fixes := vd_fixes d @ [''Fixed negative available spaces to 0'']\<rparr>
      else d)"

text \<open>\<open>if (available > total) { ... }\<close>\<close>

definition rule_exceeds_total ::
  "builtins \<Rightarrow> vtype \<Rightarrow> jsnum \<Rightarrow> jsnum \<Rightarrow> vehicleData \<Rightarrow> vehicleData" where
  "rule_exceeds_total b vehicleType total' available' d =
     (if num_gt available' total'
      then d\<lparr>vd_issues := vd_issues d @
                [type_name vehicleType @ '': Available ('' @ num_str b available'
                 @ '') exceeds total ('' @ num_str b total' @ '')''],
              vd_available := JNum total',
              vd_fixes := vd_fixes d @
                [''Fixed available spaces to match total: '' @ num_str b total']\<rparr>
      else d)"

text \<open>
  \<open>vehicleData.total = vehicleData.total || total\<close>, then
  \<open>vehicleData.available = vehicleData.available || Math.min(available, vehicleData.total)\<close>.
\<close>

definition update_validated ::
  "builtins \<Rightarrow> jsnum \<Rightarrow> jsnum \<Rightarrow> vehicleData \<Rightarrow> vehicleData" where
  "update_validated b total' available' d =
     (let d1 = d\<lparr>vd_total := js_or (vd_total d) (JNum total')\<rparr>
      in d1\<lparr>vd_available :=
                js_or (vd_available d1)
                  (JNum (Math_min available' (toNumber b (vd_total d1))))\<rparr>)"

text \<open>The arrow of the \<open>Updated\<close> message, as the three bytes of its UTF-8 encoding.\<close>

definition arrow :: string where
  "arrow = [CHR 0xE2, CHR 0x86, CHR 0x92]"

text \<open>
  \<open>if (originalTotal !== vehicleData.total || originalAvailable !== vehicleData.available)\<close>
\<close>

definition record_change ::
  "builtins \<Rightarrow> vtype \<Rightarrow> jsval \<Rightarrow> jsval \<Rightarrow> vehicleData \<Rightarrow> vehicleData" where
  "record_change b vehicleType originalTotal originalAvailable d =
     (if strict_ne originalTotal (vd_total d) \<or> strict_ne originalAvailable (vd_available d)
      then d\<lparr>vd_fixes := vd_fixes d @
                [''Updated '' @ type_name vehicleType @ '': '' @ toString b originalTotal
                 @ arrow @ toString b (vd_total d) @ '', '' @ toString b originalAvailable
                 @ arrow @ toString b (vd_available d)]\<rparr>
      else d)"

record vt_result =
  vt_issues :: "string list"
  vt_fixes :: "string list"
  vt_log :: "log_entry list"

text \<open>
  \<open>processVehicleType\<close>. The first branch of the source assigns to the \<open>const\<close>
  binding \<open>vehicleData\<close>, which throws a \<open>TypeError\<close>. The result carries the location
  with its slot updated, as the source mutates the slot in place. The locals \<open>total'\<close>
  and \<open>available'\<close> are the parsed numbers \<open>total\<close> and \<open>available\<close> of the source.
\<close>

definition processVehicleType ::
  "builtins \<Rightarrow> config \<Rightarrow> location \<Rightarrow> vtype \<Rightarrow> error + (location \<times> vt_result)" where
  "processVehicleType b cfg loc vehicleType =
     (case get_slot loc vehicleType of
        Absent \<Rightarrow> Inl TypeError
      | Prim t \<Rightarrow> Inl TypeError
      | Slot originalTotal originalAvailable \<Rightarrow>
         (case parseNumber b cfg originalTotal (Fin 0) of (total', log1) \<Rightarrow>
          (case parseNumber b cfg originalAvailable (Fin 0) of (available', log2) \<Rightarrow>
           (let d = \<lparr> vd_total = originalTotal, vd_available = originalAvailable,
                      vd_issues = [], vd_fixes = [] \<rparr>;
                d = rule_below_minimum b cfg vehicleType total' d;
                d = rule_above_maximum b cfg vehicleType total' d;
                d = rule_negative_available b vehicleType available' d;
                d = rule_exceeds_total b vehicleType total' available' d;
                d = update_validated b total' available' d;
                d = record_change b vehicleType originalTotal originalAvailable d
            in Inr (set_slot loc vehicleType (Slot (vd_total d) (vd_available d)),
                    \<lparr> vt_issues = vd_issues d, vt_fixes = vd_fixes d,
                      vt_log = log1 @ log2 \<rparr>)))))"

subsection \<open>Recommendations\<close>

text \<open>The expression \<open>((total - available) / total) * 100\<close> on two values.\<close>

definition percent_used :: "builtins \<Rightarrow> jsval \<Rightarrow> jsval \<Rightarrow> error + jsnum" where
  "percent_used b total' available' =
     (case num_div (num_sub (toNumber b total') (toNumber b available')) (toNumber b total') of
        Inl e \<Rightarrow> Inl e
      | Inr q \<Rightarrow> Inr (num_mul q (Fin 100)))"

text \<open>
  \<open>const utilization = data.total > 0 ? ((data.total - data.available) / data.total) * 100 : 0\<close>
\<close>

definition slot_utilization :: "builtins \<Rightarrow> jsval \<Rightarrow> jsval \<Rightarrow> error + jsnum" where
  "slot_utilization b total' available' =
     (if num_gt (toNumber b total') (Fin 0) then percent_used b total' available'
      else Inr (Fin 0))"

text \<open>
  The body of the \<open>forEach\<close> of \<open>generateRecommendations\<close>, for one vehicle type:
  the recommendations pushed, given the utilization, and the body itself.
\<close>

definition recommendations_for ::
  "builtins \<Rightarrow> config \<Rightarrow> vtype \<Rightarrow> jsval \<Rightarrow> jsval \<Rightarrow> jsnum \<Rightarrow> string list" where
  "recommendations_for b cfg ty total' available' utilization =
     (if num_gt (toNumber b total') (Fin 0)
         \<and> num_ge utilization (Fin (utilizationCritical cfg))
      then [type_name ty @ '': Critical utilization ('' @ toFixed1 b utilization
            @ ''%) - Consider adding capacity'']
      else if num_gt (toNumber b total') (Fin 0)
         \<and> num_ge utilization (Fin (utilizationWarning cfg))
      then [type_name ty @ '': High utilization ('' @ toFixed1 b utilization
            @ ''%) - Monitor closely'']
      else [])
     @ (if strict_eq total' (JNum (Fin 0)) \<and> strict_eq available' (JNum (Fin 0))
        then [type_name ty @ '': No capacity defined - Consider adding parking spaces'']
        else [])"

definition recommend ::
  "builtins \<Rightarrow> config \<Rightarrow> vtype \<Rightarrow> jsval \<Rightarrow> jsval \<Rightarrow> error + string list" where
  "recommend b cfg ty total' available' =
     (case slot_utilization b total' available' of
        Inl e \<Rightarrow> Inl e
      | Inr utilization \<Rightarrow>
          Inr (recommendations_for b cfg ty total' available' utilization))"

fun recommend_types ::
  "builtins \<Rightarrow> config \<Rightarrow> location \<Rightarrow> vtype list \<Rightarrow> error + string list" where
  "recommend_types b cfg loc [] = Inr []"
| "recommend_types b cfg loc (ty # tys) =
     (case slot_total (get_slot loc ty) of
        Inl e \<Rightarrow> Inl e
      | Inr total' \<Rightarrow>
         (case slot_available (get_slot loc ty) of
            Inl e \<Rightarrow> Inl e
          | Inr available' \<Rightarrow>
             (case recommend b cfg ty total' available' of
                Inl e \<Rightarrow> Inl e
              | Inr rs \<Rightarrow>
                 (case recommend_types b cfg loc tys of
                    Inl e \<Rightarrow> Inl e
                  | Inr rest \<Rightarrow> Inr (rs @ rest)))))"

definition generateRecommendations ::
  "builtins \<Rightarrow> config \<Rightarrow> location \<Rightarrow> error + string list" where
  "generateRecommendations b cfg loc = recommend_types b cfg loc allowedVehicleTypes"

subsection \<open>The state of the validator and the batch\<close>

text \<open>
  \<open>this.metrics\<close> and \<open>this.results\<close> of the validator, in one record: the counters of
  \<open>metrics\<close>, and the fields of \<open>results\<close> with the prefix \<open>res\<close>. Logging is an effect
  outside this state: only \<open>parseNumber\<close> and \<open>processVehicleType\<close> return the entries
  they write.
\<close>

record totals =
  t_bus :: jsval
  t_mobil :: jsval
  t_motor :: jsval
  t_total :: jsval

fun get_total :: "totals \<Rightarrow> vtype \<Rightarrow> jsval" where
  "get_total t Bus = t_bus t"
| "get_total t Mobil = t_mobil t"
| "get_total t Motor = t_motor t"

fun set_total :: "totals \<Rightarrow> vtype \<Rightarrow> jsval \<Rightarrow> totals" where
  "set_total t Bus v = t\<lparr>t_bus := v\<rparr>"
| "set_total t Mobil v = t\<lparr>t_mobil := v\<rparr>"
| "set_total t Motor v = t\<lparr>t_motor := v\<rparr>"

record percentages =
  p_bus :: jsnum
  p_mobil :: jsnum
  p_motor :: jsnum
  p_overall :: jsnum

fun get_percentage :: "percentages \<Rightarrow> vtype \<Rightarrow> jsnum" where
  "get_percentage p Bus = p_bus p"
| "get_percentage p Mobil = p_mobil p"
| "get_percentage p Motor = p_motor p"

fun set_percentage :: "percentages \<Rightarrow> vtype \<Rightarrow> jsnum \<Rightarrow> percentages" where
  "set_percentage p Bus v = p\<lparr>p_bus := v\<rparr>"
| "set_percentage p Mobil v = p\<lparr>p_mobil := v\<rparr>"
| "set_percentage p Motor v = p\<lparr>p_motor := v\<rparr>"

text \<open>An entry \<open>{ location: name, issues: [...] }\<close> (or \<open>fixes\<close>, or \<open>recommendations\<close>).\<close>

record entry =
  at_location :: jsval
  items :: "string list"

record backup_info =
  bi_file :: string
  bi_timestamp :: string

record validator =
  locationsProcessed :: nat
  issuesFound :: nat
  fixesApplied :: nat
  processingTime :: int
  res_totals :: totals
  res_available :: totals
  res_utilization :: percentages
  res_issues :: "entry list"
  res_fixes :: "entry list"
  res_recommendations :: "entry list"
  res_backup :: "backup_info option"

definition zero_totals :: totals where
  "zero_totals = \<lparr> t_bus = JNum (Fin 0), t_mobil = JNum (Fin 0), t_motor = JNum (Fin 0),
                    t_total = JNum (Fin 0) \<rparr>"

text \<open>The state the constructor sets up.\<close>

definition new_validator :: validator where
  "new_validator =
     \<lparr> locationsProcessed = 0, issuesFound = 0, fixesApplied = 0, processingTime = 0,
       res_totals = zero_totals, res_available = zero_totals,
       res_utilization = \<lparr> p_bus = Fin 0, p_mobil = Fin 0, p_motor = Fin 0, p_overall = Fin 0 \<rparr>,
       res_issues = [], res_fixes = [], res_recommendations = [],
       res_backup = None \<rparr>"

text \<open>
  The body of the loop over the vehicle types in \<open>processBatch\<close>, for one type:
  the location, the issues and fixes of the location so far, and the validator.
\<close>

definition process_type ::
  "builtins \<Rightarrow> config \<Rightarrow> vtype \<Rightarrow> location \<times> string list \<times> string list \<times> validator
     \<Rightarrow> error + (location \<times> string list \<times> string list \<times> validator)" where
  "process_type b cfg vehicleType st =
     (case st of (loc, locationIssues, locationFixes, v) \<Rightarrow>
       (case processVehicleType b cfg loc vehicleType of
          Inl e \<Rightarrow> Inl e
        | Inr (loc1, res) \<Rightarrow>
           (let (locationIssues1, v1) =
                  (if length (vt_issues res) > 0
                   then (locationIssues @ vt_issues res,
                         v\<lparr>issuesFound := issuesFound v + length (vt_issues res)\<rparr>)
                   else (locationIssues, v));
                (locationFixes1, v2) =
                  (if length (vt_fixes res) > 0
                   then (locationFixes @ vt_fixes res,
                         v1\<lparr>fixesApplied := fixesApplied v1 + length (vt_fixes res)\<rparr>)
                   else (locationFixes, v1))
            in case slot_total (get_slot loc1 vehicleType) of
                 Inl e \<Rightarrow> Inl e
               | Inr total' \<Rightarrow>
                  (case slot_available (get_slot loc1 vehicleType) of
                     Inl e \<Rightarrow> Inl e
                   | Inr available' \<Rightarrow>
                      Inr (loc1, locationIssues1, locationFixes1,
                           v2\<lparr>res_totals :=
                                 set_total (res_totals v2) vehicleType
                                   (js_add b (get_total (res_totals v2) vehicleType) total'),
                               res_available :=
                                 set_total (res_available v2) vehicleType
                                   (js_add b (get_total (res_available v2) vehicleType)
                                      available')\<rparr>)))))"

fun process_types ::
  "builtins \<Rightarrow> config \<Rightarrow> vtype list \<Rightarrow> location \<times> string list \<times> string list \<times> validator
     \<Rightarrow> error + (location \<times> string list \<times> string list \<times> validator)" where
  "process_types b cfg [] st = Inr st"
| "process_types b cfg (ty # tys) st =
     (case process_type b cfg ty st of
        Inl e \<Rightarrow> Inl e
      | Inr st1 \<Rightarrow> process_types b cfg tys st1)"

text \<open>
  The body of the loop over the locations in \<open>processBatch\<close>; \<open>now\<close> is
  \<open>new Date().toISOString()\<close>.
\<close>

definition process_location ::
  "builtins \<Rightarrow> config \<Rightarrow> string \<Rightarrow> location \<Rightarrow> validator \<Rightarrow> error + (location \<times> validator)" where
  "process_location b cfg now loc v =
     (case process_types b cfg allowedVehicleTypes
             (loc, [], [], v\<lparr>locationsProcessed := locationsProcessed v + 1\<rparr>) of
        Inl e \<Rightarrow> Inl e
      | Inr (loc1, locationIssues, locationFixes, v1) \<Rightarrow>
         (let loc2 = loc1\<lparr>lastValidated := JStr now,
                          validationIssues := JNum (Fin (of_nat (length locationIssues)))\<rparr>;
              v2 = (if length locationIssues > 0
                    then v1\<lparr>res_issues := res_issues v1 @
                           [\<lparr> at_location = name loc2, items = locationIssues \<rparr>]\<rparr>
                    else v1);
              v3 = (if length locationFixes > 0
                    then v2\<lparr>res_fixes := res_fixes v2 @
                           [\<lparr> at_location = name loc2, items = locationFixes \<rparr>]\<rparr>
                    else v2)
          in case generateRecommendations b cfg loc2 of
               Inl e \<Rightarrow> Inl e
             | Inr recommendations \<Rightarrow>
                 Inr (loc2,
                      if length recommendations > 0
                      then v3\<lparr>res_recommendations := res_recommendations v3 @
                             [\<lparr> at_location = name loc2, items = recommendations \<rparr>]\<rparr>
                      else v3)))"

fun processBatch ::
  "builtins \<Rightarrow> config \<Rightarrow> string \<Rightarrow> location list \<Rightarrow> validator
     \<Rightarrow> error + (location list \<times> validator)" where
  "processBatch b cfg now [] v = Inr ([], v)"
| "processBatch b cfg now (loc # batch) v =
     (case process_location b cfg now loc v of
        Inl e \<Rightarrow> Inl e
      | Inr (loc1, v1) \<Rightarrow>
         (case processBatch b cfg now batch v1 of
            Inl e \<Rightarrow> Inl e
          | Inr (batch1, v2) \<Rightarrow> Inr (loc1 # batch1, v2)))"

section \<open>The dataset, the files and the clock\<close>

text \<open>
  The statistics block of the dataset. A group that the document does not have (or
  that is no object) is \<open>None\<close>; \<open>md_updateCount\<close> is \<open>statistics.metadata.updateCount\<close>
  and \<open>updateCount\<close> is \<open>statistics.performance.updateCount\<close>, each \<open>JUndefined\<close> when
  the group does not have the field.
\<close>

record utilization_text =
  ut_bus :: string
  ut_mobil :: string
  ut_motor :: string
  ut_overall :: string

record metadata =
  lastUpdated :: jsval
  validatedAt :: jsval
  totalLocations :: jsval
  validationMode :: jsval
  md_issuesFound :: jsval
  md_fixesApplied :: jsval
  md_updateCount :: jsval

record performance =
  updateCount :: jsval
  lastProcessingTime :: jsval

record statistics =
  capacity :: "totals option"
  stat_available :: "totals option"
  stat_utilization :: "utilization_text option"
  metadata :: "metadata option"
  performance :: "performance option"

record dataset =
  locations :: "location list"
  statistics :: statistics

text \<open>
  What a file at the data path holds: text that is no JSON, the document \<open>null\<close>, or a
  document with its \<open>locations\<close> (\<open>None\<close> when it has no such array) and its
  \<open>statistics\<close> (\<open>None\<close> when it has no such object). The entries of \<open>locations\<close> are
  objects.
\<close>

datatype file_content =
    Unparseable
  | JsonNull
  | Document "location list option" "statistics option"

text \<open>The report of a run; \<open>most_available_locations\<close> and \<open>metadata\<close> are left out.\<close>

record report_summary =
  total_locations :: nat
  total_capacity :: jsval
  total_available :: jsval
  utilization_percent :: string
  issues_found :: nat
  fixes_applied :: nat
  processing_time_ms :: int

record type_details =
  td_capacity :: jsval
  td_available :: jsval
  td_utilization :: string

record severity =
  critical :: nat
  warning :: nat
  info :: nat

record report =
  rp_timestamp :: string
  summary :: report_summary
  by_vehicle_type :: "(vtype \<times> type_details) list"
  top_utilized_locations :: "top_entry list"
  issues_by_severity :: severity
  issues_fixed :: "entry list"
  recommendations :: "entry list"

datatype report_file = ReportJson report | SummaryText report | OtherFile

text \<open>
  The files the validator works on: the data file (\<open>None\<close> when it does not exist),
  the backup directory and the report directory. A directory lists its files, each
  with its modification time, in the order of their creation. Writing a file always
  succeeds.
\<close>

record filesystem =
  data_file :: "file_content option"
  backups :: "(string \<times> int \<times> file_content) list"
  reports :: "(string \<times> int \<times> report_file) list"

fun write_file :: "string \<Rightarrow> 'a \<Rightarrow> (string \<times> 'a) list \<Rightarrow> (string \<times> 'a) list" where
  "write_file n c [] = [(n, c)]"
| "write_file n c ((m, d) # fs) = (if m = n then (n, c) # fs else (m, d) # write_file n c fs)"

text \<open>
  The clock of a run, read where the source reads it: \<open>Date.now()\<close> in the
  constructor, after the batch number \<open>k\<close>, in \<open>cleanup\<close> and at the end of \<open>validate\<close>;
  \<open>new Date().toISOString()\<close>, one value for the run; and the modification time a
  file written in the run gets.
\<close>

record clock =
  startTime :: int
  batchEnd :: "nat \<Rightarrow> int"
  cleanupNow :: int
  finishTime :: int
  isoNow :: string
  fileTime :: int

section \<open>Loading\<close>

definition dq :: string where
  "dq = [CHR 0x22]"

text \<open>
  The loop of \<open>validateStructure\<close> over the locations: the errors, and the locations
  with a slot \<open>{ total: 0, available: 0 }\<close> in place of each falsy one.
\<close>

fun falsy_slot :: "slot_entry \<Rightarrow> bool" where
  "falsy_slot Absent = True"
| "falsy_slot (Prim t) = (\<not> t)"
| "falsy_slot (Slot t a) = False"

fun fill_slots :: "vtype list \<Rightarrow> location \<Rightarrow> location" where
  "fill_slots [] loc = loc"
| "fill_slots (ty # tys) loc =
     fill_slots tys
       (if falsy_slot (get_slot loc ty)
        then set_slot loc ty (Slot (JNum (Fin 0)) (JNum (Fin 0))) else loc)"

fun check_locations ::
  "builtins \<Rightarrow> nat \<Rightarrow> location list \<Rightarrow> string list \<times> location list" where
  "check_locations b index [] = ([], [])"
| "check_locations b index (loc # locs) =
     (case check_locations b (index + 1) locs of (errors, locs1) \<Rightarrow>
        ((if \<not> truthy (name loc)
          then [''Location at index '' @ num_str b (Fin (of_nat index)) @ '' missing ''
                @ dq @ ''name'' @ dq]
          else []) @ errors,
         fill_slots allowedVehicleTypes loc # locs1))"

definition validateStructure ::
  "builtins \<Rightarrow> location list option \<Rightarrow> statistics option \<Rightarrow> error + dataset" where
  "validateStructure b locs stats =
     (let errors1 = (case locs of
                       None \<Rightarrow> [''Data must contain '' @ dq @ ''locations'' @ dq @ '' array'']
                     | Some ls \<Rightarrow> []);
          errors2 = (case stats of
                       None \<Rightarrow> [''Data must contain '' @ dq @ ''statistics'' @ dq @ '' object'']
                     | Some st \<Rightarrow> []);
          (errors3, locs1) = (case locs of
                               None \<Rightarrow> ([], [])
                             | Some ls \<Rightarrow> check_locations b 0 ls);
          errors = errors1 @ errors2 @ errors3
      in case stats of
           None \<Rightarrow> Inl (StructureInvalid errors)
         | Some st \<Rightarrow>
             if length errors > 0 then Inl (StructureInvalid errors)
             else Inr \<lparr> locations = locs1, statistics = st \<rparr>)"

definition loadData :: "builtins \<Rightarrow> filesystem \<Rightarrow> error + dataset" where
  "loadData b fs =
     (case data_file fs of
        None \<Rightarrow> Inl FileNotFound
      | Some Unparseable \<Rightarrow> Inl InvalidJSON
      | Some JsonNull \<Rightarrow> Inl TypeError
      | Some (Document locs stats) \<Rightarrow> validateStructure b locs stats)"

section \<open>The aggregator\<close>

text \<open>
  \<open>if (this.results.totals[type] > 0) { this.results.utilization[type] = ... }\<close>: the
  percentage stays as it was when the total is not above zero.
\<close>

definition aggregate_utilization ::
  "builtins \<Rightarrow> jsval \<Rightarrow> jsval \<Rightarrow> jsnum \<Rightarrow> error + jsnum" where
  "aggregate_utilization b total' available' old =
     (if num_gt (toNumber b total') (Fin 0) then percent_used b total' available'
      else Inr old)"

fun type_utilizations ::
  "builtins \<Rightarrow> totals \<Rightarrow> totals \<Rightarrow> vtype list \<Rightarrow> percentages \<Rightarrow> error + percentages" where
  "type_utilizations b ts as [] p = Inr p"
| "type_utilizations b ts as (ty # tys) p =
     (case aggregate_utilization b (get_total ts ty) (get_total as ty) (get_percentage p ty) of
        Inl e \<Rightarrow> Inl e
      | Inr u \<Rightarrow> type_utilizations b ts as tys (set_percentage p ty u))"

text \<open>\<open>Object.values(t).reduce((a, b) => a + b, 0)\<close> on the four fields of \<open>t\<close>.\<close>

definition sum_values :: "builtins \<Rightarrow> totals \<Rightarrow> jsval" where
  "sum_values b t = foldl (js_add b) (JNum (Fin 0)) [t_bus t, t_mobil t, t_motor t, t_total t]"

text \<open>
  JSON has no \<open>NaN\<close> and no infinity: \<open>JSON.stringify\<close> writes them as \<open>null\<close>.
\<close>

fun json_val :: "jsval \<Rightarrow> jsval" where
  "json_val (JNum (Fin x)) = JNum (Fin x)"
| "json_val (JNum n) = JNull"
| "json_val v = v"

definition json_totals :: "totals \<Rightarrow> totals" where
  "json_totals t =
     \<lparr> t_bus = json_val (t_bus t), t_mobil = json_val (t_mobil t),
       t_motor = json_val (t_motor t), t_total = json_val (t_total t) \<rparr>"

definition updateStatistics ::
  "builtins \<Rightarrow> config \<Rightarrow> string \<Rightarrow> dataset \<Rightarrow> validator \<Rightarrow> error + (dataset \<times> validator)" where
  "updateStatistics b cfg now data v =
     (let v1 = v\<lparr>res_totals := (res_totals v)\<lparr>t_total := sum_values b (res_totals v)\<rparr>\<rparr>;
          v2 = v1\<lparr>res_available :=
                    (res_available v1)\<lparr>t_total := sum_values b (res_available v1)\<rparr>\<rparr>
      in case type_utilizations b (res_totals v2) (res_available v2) allowedVehicleTypes
                (res_utilization v2) of
           Inl e \<Rightarrow> Inl e
         | Inr p \<Rightarrow>
            (case aggregate_utilization b (t_total (res_totals v2)) (t_total (res_available v2))
                    (p_overall p) of
               Inl e \<Rightarrow> Inl e
             | Inr overall \<Rightarrow>
                (let v3 = v2\<lparr>res_utilization := p\<lparr>p_overall := overall\<rparr>\<rparr>;
                     old = (case metadata (statistics data) of
                              None \<Rightarrow> JUndefined
                            | Some m \<Rightarrow> md_updateCount m);
                     stats =
                       \<lparr> capacity = Some (res_totals v3),
                         stat_available = Some (res_available v3),
                         stat_utilization = Some
                           \<lparr> ut_bus = toFixed1 b (p_bus (res_utilization v3)),
                             ut_mobil = toFixed1 b (p_mobil (res_utilization v3)),
                             ut_motor = toFixed1 b (p_motor (res_utilization v3)),
                             ut_overall = toFixed1 b (p_overall (res_utilization v3)) \<rparr>,
                         metadata = Some
                           \<lparr> lastUpdated = JStr now,
                             validatedAt = JStr now,
                             totalLocations = JNum (Fin (of_nat (length (locations data)))),
                             validationMode = JStr (mode cfg),
                             md_issuesFound = JNum (Fin (of_nat (issuesFound v3))),
                             md_fixesApplied = JNum (Fin (of_nat (fixesApplied v3))),
                             md_updateCount = JUndefined \<rparr>,
                         performance = Some
                           \<lparr> updateCount = js_add b (js_or old (JNum (Fin 0))) (JNum (Fin 1)),
                             lastProcessingTime = JNum (Fin (of_int (processingTime v3))) \<rparr> \<rparr>
                 in Inr (data\<lparr>statistics := stats\<rparr>, v3))))"

section \<open>Processing and saving\<close>

text \<open>\<open>JSON.stringify(data)\<close> followed by \<open>JSON.parse\<close>: what the next run reads.\<close>

fun json_slot :: "slot_entry \<Rightarrow> slot_entry" where
  "json_slot (Slot t a) = Slot (json_val t) (json_val a)"
| "json_slot s = s"

definition json_location :: "location \<Rightarrow> location" where
  "json_location l =
     \<lparr> name = json_val (name l), nama = json_val (nama l),
       bus = json_slot (bus l), mobil = json_slot (mobil l), motor = json_slot (motor l),
       lastValidated = json_val (lastValidated l),
       validationIssues = json_val (validationIssues l) \<rparr>"

definition json_metadata :: "metadata \<Rightarrow> metadata" where
  "json_metadata m =
     \<lparr> lastUpdated = json_val (lastUpdated m), validatedAt = json_val (validatedAt m),
       totalLocations = json_val (totalLocations m),
       validationMode = json_val (validationMode m),
       md_issuesFound = json_val (md_issuesFound m),
       md_fixesApplied = json_val (md_fixesApplied m),
       md_updateCount = json_val (md_updateCount m) \<rparr>"

definition json_performance :: "performance \<Rightarrow> performance" where
  "json_performance p =
     \<lparr> updateCount = json_val (updateCount p),
       lastProcessingTime = json_val (lastProcessingTime p) \<rparr>"

definition json_statistics :: "statistics \<Rightarrow> statistics" where
  "json_statistics s =
     \<lparr> capacity = map_option json_totals (capacity s),
       stat_available = map_option json_totals (stat_available s),
       stat_utilization = stat_utilization s,
       metadata = map_option json_metadata (metadata s),
       performance = map_option json_performance (performance s) \<rparr>"

definition saveData :: "dataset \<Rightarrow> filesystem \<Rightarrow> filesystem" where
  "saveData data fs =
     fs\<lparr>data_file :=
          Some (Document (Some (map json_location (locations data)))
                         (Some (json_statistics (statistics data))))\<rparr>"

text \<open>
  The loop of \<open>processData\<close>: \<open>i\<close> is the loop variable and \<open>k\<close> counts the batches.
  The batch is \<open>locations.slice(i, i + batchSize)\<close>; its locations are objects of the
  array, so what \<open>processBatch\<close> changes shows in \<open>locs\<close>. With a batch size of zero
  the loop ends only when the time check fails.
\<close>

partial_function (option) batch_loop ::
  "builtins \<Rightarrow> config \<Rightarrow> clock \<Rightarrow> nat \<Rightarrow> nat \<Rightarrow> location list \<Rightarrow> validator
     \<Rightarrow> (error + (location list \<times> validator)) option" where
  "batch_loop b cfg ck k i locs v =
     (if i < length locs
      then (case processBatch b cfg (isoNow ck) (take (batchSize cfg) (drop i locs)) v of
              Inl e \<Rightarrow> Some (Inl e)
            | Inr r \<Rightarrow>
               (if batchEnd ck k - startTime ck > maxProcessingTime cfg
                then Some (Inl ProcessingTimeout)
                else batch_loop b cfg ck (k + 1) (i + batchSize cfg)
                       (take i locs @ fst r @ drop (i + batchSize cfg) locs) (snd r)))
      else Some (Inr (locs, v)))"

declare batch_loop.simps [code]

definition processData ::
  "builtins \<Rightarrow> config \<Rightarrow> clock \<Rightarrow> dataset \<Rightarrow> validator \<Rightarrow> filesystem
     \<Rightarrow> (error + (dataset \<times> validator \<times> filesystem)) option" where
  "processData b cfg ck data v fs =
     (case batch_loop b cfg ck 0 0 (locations data) v of
        None \<Rightarrow> None
      | Some (Inl e) \<Rightarrow> Some (Inl e)
      | Some (Inr (locs, v1)) \<Rightarrow>
         (case updateStatistics b cfg (isoNow ck) (data\<lparr>locations := locs\<rparr>) v1 of
            Inl e \<Rightarrow> Some (Inl e)
          | Inr (data1, v2) \<Rightarrow>
              Some (Inr (data1, v2, if \<not> dry_run cfg then saveData data1 fs else fs))))"

section \<open>The reporter\<close>

text \<open>
  The callback of \<open>map\<close> in \<open>getTopUtilizedLocations\<close>: the sums
  \<open>totalCapacity += location[type]?.total || 0\<close> and
  \<open>totalAvailable += location[type]?.available || 0\<close> over the vehicle types, and
  \<open>totalCapacity > 0 ? ((totalCapacity - totalAvailable) / totalCapacity) * 100 : 0\<close>.
\<close>

definition totalCapacity :: "builtins \<Rightarrow> location \<Rightarrow> jsval" where
  "totalCapacity b loc =
     foldl (\<lambda>acc ty. js_add b acc (js_or (opt_total (get_slot loc ty)) (JNum (Fin 0))))
       (JNum (Fin 0)) allowedVehicleTypes"

definition totalAvailable :: "builtins \<Rightarrow> location \<Rightarrow> jsval" where
  "totalAvailable b loc =
     foldl (\<lambda>acc ty. js_add b acc (js_or (opt_available (get_slot loc ty)) (JNum (Fin 0))))
       (JNum (Fin 0)) allowedVehicleTypes"

definition location_utilization :: "builtins \<Rightarrow> jsval \<Rightarrow> jsval \<Rightarrow> error + jsnum" where
  "location_utilization b capacity' available' =
     (if num_gt (toNumber b capacity') (Fin 0)
      then percent_used b capacity' available'
      else Inr (Fin 0))"

definition top_entry_of :: "builtins \<Rightarrow> location \<Rightarrow> error + top_entry" where
  "top_entry_of b loc =
     (case location_utilization b (totalCapacity b loc) (totalAvailable b loc) of
        Inl e \<Rightarrow> Inl e
      | Inr utilization \<Rightarrow>
          Inr \<lparr> te_name = name loc, te_capacity = totalCapacity b loc,
                te_available = totalAvailable b loc,
                te_utilization = toFixed1 b utilization \<rparr>)"

fun top_entries :: "builtins \<Rightarrow> location list \<Rightarrow> error + top_entry list" where
  "top_entries b [] = Inr []"
| "top_entries b (loc # locs) =
     (case top_entry_of b loc of
        Inl e \<Rightarrow> Inl e
      | Inr x \<Rightarrow>
         (case top_entries b locs of
            Inl e \<Rightarrow> Inl e
          | Inr xs \<Rightarrow> Inr (x # xs)))"

definition getTopUtilizedLocations ::
  "builtins \<Rightarrow> dataset \<Rightarrow> nat \<Rightarrow> error + top_entry list" where
  "getTopUtilizedLocations b data limit =
     (case top_entries b (locations data) of
        Inl e \<Rightarrow> Inl e
      | Inr xs \<Rightarrow>
          Inr (take limit
                 (sort_by_utilization b
                    (filter (\<lambda>x. num_gt (toNumber b (te_capacity x)) (Fin 0)) xs))))"

text \<open>
  \<open>issues_by_severity\<close>: the entries of \<open>this.results.issues\<close> with an issue that
  includes one of two words, and the number of all entries.
\<close>

definition count_issues :: "string \<Rightarrow> string \<Rightarrow> entry list \<Rightarrow> nat" where
  "count_issues w1 w2 es =
     length (filter (\<lambda>i. list_ex (\<lambda>issue. str_includes issue w1 \<or> str_includes issue w2)
                             (items i)) es)"

definition build_report ::
  "builtins \<Rightarrow> string \<Rightarrow> dataset \<Rightarrow> validator \<Rightarrow> error + report" where
  "build_report b now data v =
     (case getTopUtilizedLocations b data 5 of
        Inl e \<Rightarrow> Inl e
      | Inr topUtilized \<Rightarrow>
          Inr \<lparr> rp_timestamp = now,
                summary =
                  \<lparr> total_locations = length (locations data),
                    total_capacity = t_total (res_totals v),
                    total_available = t_total (res_available v),
                    utilization_percent = toFixed1 b (p_overall (res_utilization v)),
                    issues_found = issuesFound v,
                    fixes_applied = fixesApplied v,
                    processing_time_ms = processingTime v \<rparr>,
                by_vehicle_type =
                  map (\<lambda>ty. (ty, \<lparr> td_capacity = get_total (res_totals v) ty,
                                     td_available = get_total (res_available v) ty,
                                     td_utilization =
                                       toFixed1 b (get_percentage (res_utilization v) ty) \<rparr>))
                    allowedVehicleTypes,
                top_utilized_locations = topUtilized,
                issues_by_severity =
                  \<lparr> critical = count_issues ''Critical'' ''exceeds'' (res_issues v),
                    warning = count_issues ''Warning'' ''High'' (res_issues v),
                    info = length (res_issues v) \<rparr>,
                issues_fixed = res_fixes v,
                recommendations = res_recommendations v \<rparr>)"

text \<open>
  \<open>generateReport\<close> writes the dated report, the latest report and, in
  \<open>generateTextSummary\<close>, the text summary, whatever the mode.
\<close>

definition generateReport ::
  "builtins \<Rightarrow> clock \<Rightarrow> dataset \<Rightarrow> validator \<Rightarrow> filesystem \<Rightarrow> error + (report \<times> filesystem)" where
  "generateReport b ck data v fs =
     (case build_report b (isoNow ck) data v of
        Inl e \<Rightarrow> Inl e
      | Inr r \<Rightarrow>
         (let reportFile = ''validation-report-''
                @ takeWhile (\<lambda>c. c \<noteq> CHR ''T'') (isoNow ck) @ ''.json'';
              latestReport = ''validation-report-latest.json'';
              summaryFile = ''validation-summary.txt'';
              rs1 = write_file reportFile (fileTime ck, ReportJson r) (reports fs);
              rs2 = write_file latestReport (fileTime ck, ReportJson r) rs1;
              rs3 = write_file summaryFile (fileTime ck, SummaryText r) rs2
          in Inr (r, fs\<lparr>reports := rs3\<rparr>)))"

section \<open>Backups and retention\<close>

text \<open>
  \<open>createBackup\<close>: nothing in a dry run; else a copy of the data file as it is, under
  a name with the time stamp, its colons and dots replaced by dashes.
\<close>

definition createBackup ::
  "config \<Rightarrow> clock \<Rightarrow> filesystem \<Rightarrow> validator \<Rightarrow> error + (filesystem \<times> validator)" where
  "createBackup cfg ck fs v =
     (if dry_run cfg then Inr (fs, v)
      else case data_file fs of
             None \<Rightarrow> Inl FileNotFound
           | Some c \<Rightarrow>
              (let timestamp = map (\<lambda>c. if c = CHR '':'' \<or> c = CHR ''.'' then CHR ''-'' else c)
                                 (isoNow ck);
                   backupFile = ''parkir-data-backup-'' @ timestamp @ ''.json''
               in Inr (fs\<lparr>backups := write_file backupFile (fileTime ck, c) (backups fs)\<rparr>,
                       v\<lparr>res_backup :=
                           Some \<lparr> bi_file = backupFile, bi_timestamp = timestamp \<rparr>\<rparr>)))"

text \<open>
  \<open>cleanup\<close>: nothing in a dry run; else the backups beyond the \<open>max-backups\<close> most
  recent ones are deleted, and the reports older than thirty days except the latest
  one. The sort of the source is stable and its comparator orders by time, the most
  recent first.
\<close>

definition cleanup :: "config \<Rightarrow> clock \<Rightarrow> filesystem \<Rightarrow> filesystem" where
  "cleanup cfg ck fs =
     (if dry_run cfg then fs
      else
        (let backupFiles =
               sort_key (\<lambda>f. - fst (snd f))
                 (filter (\<lambda>f. prefix ''parkir-data-backup-'' (fst f) \<and> suffix ''.json'' (fst f))
                    (backups fs));
             toDelete = (if length backupFiles > max_backups cfg
                         then map fst (drop (max_backups cfg) backupFiles) else []);
             fs1 = fs\<lparr>backups := filter (\<lambda>f. fst f \<notin> set toDelete) (backups fs)\<rparr>;
             reportFiles =
               filter (\<lambda>f. prefix ''validation-report-'' (fst f) \<and> suffix ''.json'' (fst f))
                 (reports fs1);
             thirtyDaysAgo = cleanupNow ck - 30 * 24 * 60 * 60 * 1000;
             oldReports = map fst (filter (\<lambda>f. fst (snd f) < thirtyDaysAgo) reportFiles)
         in fs1\<lparr>reports :=
                  filter (\<lambda>f. \<not> (fst f \<in> set oldReports
                                  \<and> fst f \<noteq> ''validation-report-latest.json''))
                    (reports fs1)\<rparr>))"

section \<open>The run\<close>

record run_result =
  rr_report :: report
  rr_validator :: validator
  rr_data :: dataset

text \<open>
  \<open>validate\<close>, with the files it leaves: the outcome is the error the \<open>catch\<close> block
  reports, or the report, the state of the validator and the dataset in memory.
  \<open>None\<close> is a run that does not end.
\<close>

definition validate ::
  "builtins \<Rightarrow> config \<Rightarrow> clock \<Rightarrow> filesystem
     \<Rightarrow> ((error + run_result) \<times> filesystem) option" where
  "validate b cfg ck fs =
     (case (if backup cfg then createBackup cfg ck fs new_validator
            else Inr (fs, new_validator)) of
        Inl e \<Rightarrow> Some (Inl e, fs)
      | Inr (fs1, v1) \<Rightarrow>
         (case loadData b fs1 of
            Inl e \<Rightarrow> Some (Inl e, fs1)
          | Inr data \<Rightarrow>
             (case processData b cfg ck data v1 fs1 of
                None \<Rightarrow> None
              | Some (Inl e) \<Rightarrow> Some (Inl e, fs1)
              | Some (Inr (data1, v2, fs2)) \<Rightarrow>
                 (case generateReport b ck data1 v2 fs2 of
                    Inl e \<Rightarrow> Some (Inl e, fs2)
                  | Inr (r, fs3) \<Rightarrow>
                      Some (Inr \<lparr> rr_report = r,
                                  rr_validator =
                                    v2\<lparr>processingTime := finishTime ck - startTime ck\<rparr>,
                                  rr_data = data1 \<rparr>,
                            cleanup cfg ck fs3)))))"

section \<open>The updates validator\<close>

text \<open>
  A pending update (\<open>validate-updates.js\<close>); a field the object does not have is
  \<open>JUndefined\<close>. The built-in functions the cleaning step calls are parameters:
  \<open>String.prototype.trim\<close>, \<open>parseInt\<close>, and whether \<open>new Date(v).getTime()\<close> is a
  number.
\<close>

record update =
  location_id :: jsval
  petugas_name :: jsval
  upd_bus :: jsval
  upd_mobil :: jsval
  upd_motor :: jsval
  upd_timestamp :: jsval
  upd_notes :: jsval
  upd_status :: jsval

record update_builtins =
  trim :: "string \<Rightarrow> string"
  parseInt :: "jsval \<Rightarrow> jsnum"
  date_valid :: "jsval \<Rightarrow> bool"

text \<open>\<open>v !== undefined && (isNaN(v) || v < 0)\<close>\<close>

definition invalid_count :: "builtins \<Rightarrow> jsval \<Rightarrow> bool" where
  "invalid_count b v =
     (strict_ne v JUndefined \<and> (isNaN (toNumber b v) \<or> num_lt (toNumber b v) (Fin 0)))"

text \<open>\<open>!v || typeof v !== 'string'\<close>\<close>

definition missing_string :: "jsval \<Rightarrow> bool" where
  "missing_string v = (if truthy v then \<not> is_string v else True)"

text \<open>The validation rules of one update, against the list \<open>validLocations\<close>.\<close>

definition update_errors ::
  "builtins \<Rightarrow> update_builtins \<Rightarrow> jsval list \<Rightarrow> update \<Rightarrow> string list" where
  "update_errors b ub validLocations u =
     (if missing_string (location_id u) then [''Missing or invalid location_id''] else [])
     @ (if truthy (location_id u) \<and> location_id u \<notin> set validLocations
        then [''Invalid location_id: '' @ toString b (location_id u)] else [])
     @ (if missing_string (petugas_name u) then [''Missing or invalid petugas_name''] else [])
     @ (if invalid_count b (upd_bus u) then [''Invalid bus value''] else [])
     @ (if invalid_count b (upd_mobil u) then [''Invalid mobil value''] else [])
     @ (if invalid_count b (upd_motor u) then [''Invalid motor value''] else [])
     @ (if truthy (upd_timestamp u) \<and> \<not> date_valid ub (upd_timestamp u)
        then [''Invalid timestamp''] else [])"

text \<open>
  The cleaned update. Calling \<open>trim\<close> or \<open>substring\<close> on a value that is no string
  throws a \<open>TypeError\<close>.
\<close>

definition clean_update :: "update_builtins \<Rightarrow> string \<Rightarrow> update \<Rightarrow> error + update" where
  "clean_update ub now u =
     (case (location_id u, petugas_name u) of
        (JStr l, JStr p) \<Rightarrow>
          (let c = \<lparr> location_id = JStr (trim ub l), petugas_name = JStr (trim ub p),
                     upd_bus = (if strict_ne (upd_bus u) JUndefined
                                then JNum (parseInt ub (upd_bus u)) else JUndefined),
                     upd_mobil = (if strict_ne (upd_mobil u) JUndefined
                                  then JNum (parseInt ub (upd_mobil u)) else JUndefined),
                     upd_motor = (if strict_ne (upd_motor u) JUndefined
                                  then JNum (parseInt ub (upd_motor u)) else JUndefined),
                     upd_timestamp = js_or (upd_timestamp u) (JStr now),
                     upd_notes = JUndefined,
                     upd_status = JStr ''pending'' \<rparr>
           in if truthy (upd_notes u)
              then (case upd_notes u of
                      JStr n \<Rightarrow> Inr (c\<lparr>upd_notes := JStr (take 500 n)\<rparr>)
                    | _ \<Rightarrow> Inl TypeError)
              else Inr c)
      | _ \<Rightarrow> Inl TypeError)"

record invalid_update =
  original :: update
  errors :: "string list"

text \<open>The \<open>forEach\<close> over the updates: the valid ones, cleaned, and the invalid ones.\<close>

fun classify ::
  "builtins \<Rightarrow> update_builtins \<Rightarrow> string \<Rightarrow> jsval list \<Rightarrow> update list
     \<Rightarrow> error + (update list \<times> invalid_update list)" where
  "classify b ub now validLocations [] = Inr ([], [])"
| "classify b ub now validLocations (u # us) =
     (let es = update_errors b ub validLocations u
      in if length es = 0
         then (case clean_update ub now u of
                 Inl e \<Rightarrow> Inl e
               | Inr c \<Rightarrow>
                  (case classify b ub now validLocations us of
                     Inl e \<Rightarrow> Inl e
                   | Inr (valids, invalids) \<Rightarrow> Inr (c # valids, invalids)))
         else (case classify b ub now validLocations us of
                 Inl e \<Rightarrow> Inl e
               | Inr (valids, invalids) \<Rightarrow>
                   Inr (valids, \<lparr> original = u, errors = es \<rparr> # invalids)))"

text \<open>
  \<open>validateAndCleanUpdates\<close>. Its files: the pending updates (\<open>None\<close> when the file
  does not exist; else an array of objects), the data file of the parking validator,
  and the archive of invalid updates, one file for each run that found some.
\<close>

record updates_files =
  pending :: "update list option"
  parkir_data :: "file_content option"
  invalid_archive :: "invalid_update list list"

definition json_update :: "update \<Rightarrow> update" where
  "json_update u =
     \<lparr> location_id = json_val (location_id u), petugas_name = json_val (petugas_name u),
       upd_bus = json_val (upd_bus u), upd_mobil = json_val (upd_mobil u),
       upd_motor = json_val (upd_motor u), upd_timestamp = json_val (upd_timestamp u),
       upd_notes = json_val (upd_notes u), upd_status = json_val (upd_status u) \<rparr>"

record updates_result =
  valid :: nat
  invalid :: nat
  cleaned :: "update list"

definition validateAndCleanUpdates ::
  "builtins \<Rightarrow> update_builtins \<Rightarrow> string \<Rightarrow> updates_files
     \<Rightarrow> error + (updates_result \<times> updates_files)" where
  "validateAndCleanUpdates b ub now files =
     (case pending files of
        None \<Rightarrow> Inr (\<lparr> valid = 0, invalid = 0, cleaned = [] \<rparr>, files)
      | Some updates \<Rightarrow>
         (case (case parkir_data files of
                  None \<Rightarrow> Inr []
                | Some Unparseable \<Rightarrow> Inl InvalidJSON
                | Some JsonNull \<Rightarrow> Inl TypeError
                | Some (Document None stats) \<Rightarrow> Inl TypeError
                | Some (Document (Some ls) stats) \<Rightarrow> Inr (map nama ls)) of
            Inl e \<Rightarrow> Inl e
          | Inr validLocations \<Rightarrow>
             (case classify b ub now validLocations updates of
                Inl e \<Rightarrow> Inl e
              | Inr (validUpdates, invalidUpdates) \<Rightarrow>
                  Inr (\<lparr> valid = length validUpdates, invalid = length invalidUpdates,
                         cleaned = validUpdates \<rparr>,
                       files\<lparr>pending := Some (map json_update validUpdates),
                             invalid_archive :=
                               (if length invalidUpdates > 0
                                then invalid_archive files @ [invalidUpdates]
                                else invalid_archive files)\<rparr>))))"

section \<open>A reference instance of the built-in functions\<close>

text \<open>
  Concrete inputs are evaluated with the following built-ins. They agree with the
  engine on the fragment the examples use: \<open>Number\<close> on a decimal numeral (an
  optional minus sign, digits, and optionally a point and digits), on \<open>Infinity\<close> and
  on text without a digit, which is no number; \<open>String\<close> on an integer, an infinity
  and \<open>NaN\<close>. Outside that fragment (an exponent, white space, a hexadecimal literal,
  a fraction to print) they are not the engine's functions; no theorem about every
  input relies on them.
\<close>

definition digit_char :: "int \<Rightarrow> char" where
  "digit_char n = char_of (48 + n)"

function digits_str :: "int \<Rightarrow> string" where
  "digits_str n =
     (if n < 10 then [digit_char n] else digits_str (n div 10) @ [digit_char (n mod 10)])"
  by pat_completeness auto
termination
  by (relation "measure nat") auto

declare digits_str.simps [simp del]

definition int_str :: "int \<Rightarrow> string" where
  "int_str i = (if i < 0 then CHR ''-'' # digits_str (- i) else digits_str i)"

definition is_digit :: "char \<Rightarrow> bool" where
  "is_digit c = (48 \<le> (of_char c :: int) \<and> (of_char c :: int) \<le> 57)"

definition digits_val :: "string \<Rightarrow> int" where
  "digits_val s = foldl (\<lambda>a c. 10 * a + ((of_char c :: int) - 48)) 0 s"

text \<open>Digits, or digits, a point and digits.\<close>

definition unsigned_num :: "string \<Rightarrow> jsnum" where
  "unsigned_num s =
     (let whole = takeWhile (\<lambda>c. c \<noteq> CHR ''.'') s;
          rest = dropWhile (\<lambda>c. c \<noteq> CHR ''.'') s
      in if s = ''Infinity'' then PInf
         else if whole = [] then NaN
         else if \<not> list_all is_digit whole then NaN
         else if rest = [] then fl (of_int (digits_val whole))
         else if tl rest = [] then NaN
         else if \<not> list_all is_digit (tl rest) then NaN
         else fl (of_int (digits_val whole)
                  + of_int (digits_val (tl rest)) / 10 ^ length (tl rest)))"

definition ref_str_num :: "string \<Rightarrow> jsnum" where
  "ref_str_num s =
     (if s = [] then Fin 0
      else if hd s = CHR ''-'' then num_neg (unsigned_num (tl s))
      else unsigned_num s)"

definition ref_num_str :: "jsnum \<Rightarrow> string" where
  "ref_num_str n =
     (case n of
        NaN \<Rightarrow> ''NaN''
      | PInf \<Rightarrow> ''Infinity''
      | NInf \<Rightarrow> ''-Infinity''
      | Fin q \<Rightarrow>
          (if snd (quotient_of q) = 1 then int_str (fst (quotient_of q))
           else int_str (fst (quotient_of q)) @ ''/'' @ int_str (snd (quotient_of q))))"

text \<open>
  \<open>toFixed(1)\<close>: the sign, then the integer \<open>k\<close> for which \<open>k / 10\<close> is nearest to the
  absolute value (the larger one at a tie), printed with one decimal.
\<close>

definition ref_toFixed1 :: "jsnum \<Rightarrow> string" where
  "ref_toFixed1 n =
     (case n of
        NaN \<Rightarrow> ''NaN''
      | PInf \<Rightarrow> ''Infinity''
      | NInf \<Rightarrow> ''-Infinity''
      | Fin q \<Rightarrow>
          (if q < 0 then ''-'' else [])
          @ digits_str (\<lfloor>10 * \<bar>q\<bar> + 1 / 2\<rfloor> div 10) @ ''.''
          @ digits_str (\<lfloor>10 * \<bar>q\<bar> + 1 / 2\<rfloor> mod 10))"

text \<open>
  A stable insertion sort for the comparator \<open>b.utilization - a.utilization\<close>, a
  result that is \<open>NaN\<close> counting as zero.
\<close>

fun insert_desc :: "top_entry \<Rightarrow> top_entry list \<Rightarrow> top_entry list" where
  "insert_desc x [] = [x]"
| "insert_desc x (y # ys) =
     (if num_gt (num_sub (ref_str_num (te_utilization y)) (ref_str_num (te_utilization x))) (Fin 0)
      then y # insert_desc x ys else x # y # ys)"

definition ref_sort :: "top_entry list \<Rightarrow> top_entry list" where
  "ref_sort xs = foldr insert_desc xs []"

definition ref_builtins :: builtins where
  "ref_builtins =
     \<lparr> str_num = ref_str_num, num_str = ref_num_str, toFixed1 = ref_toFixed1,
       sort_by_utilization = ref_sort \<rparr>"

section \<open>Example data\<close>

text \<open>A dataset file with the given locations and an empty statistics object.\<close>

definition num_slot :: "rat \<Rightarrow> rat \<Rightarrow> slot_entry" where
  "num_slot t a = Slot (JNum (Fin t)) (JNum (Fin a))"

definition example_location :: "string \<Rightarrow> slot_entry \<Rightarrow> slot_entry \<Rightarrow> slot_entry \<Rightarrow> location" where
  "example_location n s1 s2 s3 =
     \<lparr> name = JStr n, nama = JUndefined, bus = s1, mobil = s2, motor = s3,
       lastValidated = JUndefined, validationIssues = JUndefined \<rparr>"

definition empty_statistics :: statistics where
  "empty_statistics =
     \<lparr> capacity = None, stat_available = None, stat_utilization = None,
       metadata = None, performance = None \<rparr>"

definition example_files :: "location list \<Rightarrow> filesystem" where
  "example_files ls =
     \<lparr> data_file = Some (Document (Some ls) (Some empty_statistics)),
       backups = [], reports = [] \<rparr>"

definition example_clock :: clock where
  "example_clock =
     \<lparr> startTime = 0, batchEnd = (\<lambda>k. 1), cleanupNow = 2, finishTime = 3,
       isoNow = ''2026-03-20T08:00:00.000Z'', fileTime = 1 \<rparr>"

definition dry_config :: config where
  "dry_config = default_config\<lparr>dry_run := True\<rparr>"

text \<open>What the data file holds after a run: its locations, and its update counter.\<close>

definition stored_locations :: "filesystem \<Rightarrow> location list" where
  "stored_locations fs =
     (case data_file fs of
        Some (Document (Some ls) st) \<Rightarrow> ls
      | _ \<Rightarrow> [])"

definition stored_statistics :: "filesystem \<Rightarrow> statistics option" where
  "stored_statistics fs =
     (case data_file fs of
        Some (Document ls (Some st)) \<Rightarrow> Some st
      | _ \<Rightarrow> None)"

definition stored_updateCount :: "filesystem \<Rightarrow> jsval" where
  "stored_updateCount fs =
     (case stored_statistics fs of
        None \<Rightarrow> JUndefined
      | Some st \<Rightarrow> (case performance st of None \<Rightarrow> JUndefined | Some p \<Rightarrow> updateCount p))"

text \<open>The files a run leaves, and a second run on them.\<close>

definition files_after :: "((error + run_result) \<times> filesystem) option \<Rightarrow> filesystem option" where
  "files_after r = map_option snd r"

definition run_again ::
  "builtins \<Rightarrow> config \<Rightarrow> clock \<Rightarrow> ((error + run_result) \<times> filesystem) option
     \<Rightarrow> ((error + run_result) \<times> filesystem) option" where
  "run_again b cfg ck r = (case r of None \<Rightarrow> None | Some (out, fs) \<Rightarrow> validate b cfg ck fs)"

text \<open>The result of a run that ends with a report.\<close>

definition run_outcome :: "((error + run_result) \<times> filesystem) option \<Rightarrow> run_result option" where
  "run_outcome r = (case r of Some (Inr res, fs) \<Rightarrow> Some res | _ \<Rightarrow> None)"

text \<open>The capacity of the buses in the statistics a successful run computes.\<close>

definition bus_capacity :: "((error + run_result) \<times> filesystem) option \<Rightarrow> jsval option" where
  "bus_capacity r =
     (case r of
        Some (Inr res, fs) \<Rightarrow> map_option t_bus (capacity (statistics (rr_data res)))
      | _ \<Rightarrow> None)"

definition empty_update :: update where
  "empty_update =
     \<lparr> location_id = JUndefined, petugas_name = JUndefined, upd_bus = JUndefined,
       upd_mobil = JUndefined, upd_motor = JUndefined, upd_timestamp = JUndefined,
       upd_notes = JUndefined, upd_status = JUndefined \<rparr>"

section \<open>Notions of the specification\<close>

text \<open>
  The utilization in the words of the specification:
  \<open>(total - available) / total * 100\<close> when \<open>total > 0\<close>, else 0, in the arithmetic of
  the language.
\<close>

definition utilization_spec :: "jsnum \<Rightarrow> jsnum \<Rightarrow> jsnum" where
  "utilization_spec total' available' =
     (if num_gt total' (Fin 0)
      then num_mul (num_quot (num_sub total' available') total') (Fin 100)
      else Fin 0)"


section \<open>Numbers\<close>

text \<open>The operations on finite numbers, and the double of 0 and of 1.\<close>

lemma num_sub_Fin [simp]: "num_sub (Fin x) (Fin y) = fl (x - y)"
  by (simp add: num_sub_def)

lemma num_gt_Fin [simp]: "num_gt (Fin x) (Fin y) = (y < x)"
  by (simp add: num_gt_def)

lemma num_ge_Fin [simp]: "num_ge (Fin x) (Fin y) = (y \<le> x)"
  by (auto simp: num_ge_def)

lemma Math_max_Fin [simp]: "Math_max (Fin x) (Fin y) = Fin (max x y)"
  by (simp add: Math_max_def max_def)

lemma Math_min_Fin [simp]: "Math_min (Fin x) (Fin y) = Fin (min x y)"
  by (auto simp: Math_min_def min_def)

lemma fl_zero [simp]: "fl 0 = Fin 0"
  by (simp add: fl_def)

lemma fl_one [simp]: "fl 1 = Fin 1"
  by code_simp


section \<open>Equations for evaluation\<close>

text \<open>
  The same functions, written with a test on each intermediate result in place of a
  case distinction, so that the simplifier evaluates a call only once its arguments
  are values. They replace the defining equations as code equations.
\<close>

lemma process_type_code [code]:
  "process_type b cfg vehicleType st =
     (let r = processVehicleType b cfg (fst st) vehicleType
      in if isl r then Inl (projl r)
         else (let t = slot_total (get_slot (fst (projr r)) vehicleType)
               in if isl t then Inl (projl t)
                  else (let a = slot_available (get_slot (fst (projr r)) vehicleType)
                        in if isl a then Inl (projl a)
                           else Inr (fst (projr r),
                                  (if length (vt_issues (snd (projr r))) > 0
                                   then fst (snd st) @ vt_issues (snd (projr r))
                                   else fst (snd st)),
                                  (if length (vt_fixes (snd (projr r))) > 0
                                   then fst (snd (snd st)) @ vt_fixes (snd (projr r))
                                   else fst (snd (snd st))),
                                  (snd (snd (snd st)))
                                    \<lparr>issuesFound := issuesFound (snd (snd (snd st)))
                                        + length (vt_issues (snd (projr r))),
                                     fixesApplied := fixesApplied (snd (snd (snd st)))
                                        + length (vt_fixes (snd (projr r))),
                                     res_totals :=
                                       set_total (res_totals (snd (snd (snd st)))) vehicleType
                                         (js_add b (get_total (res_totals (snd (snd (snd st))))
                                                      vehicleType) (projr t)),
                                     res_available :=
                                       set_total (res_available (snd (snd (snd st)))) vehicleType
                                         (js_add b (get_total (res_available (snd (snd (snd st))))
                                                      vehicleType) (projr a))\<rparr>))))"
  by (cases st) (auto simp: process_type_def Let_def split: sum.splits prod.splits)

lemma process_types_code [code]:
  "process_types b cfg [] st = Inr st"
  "process_types b cfg (ty # tys) st =
     (let r = process_type b cfg ty st
      in if isl r then Inl (projl r) else process_types b cfg tys (projr r))"
  by (simp_all add: Let_def split: sum.splits)

lemma recommend_types_code [code]:
  "recommend_types b cfg loc [] = Inr []"
  "recommend_types b cfg loc (ty # tys) =
     (let t = slot_total (get_slot loc ty)
      in if isl t then Inl (projl t)
         else (let a = slot_available (get_slot loc ty)
               in if isl a then Inl (projl a)
                  else (let r = recommend b cfg ty (projr t) (projr a)
                        in if isl r then Inl (projl r)
                           else (let rest = recommend_types b cfg loc tys
                                 in if isl rest then Inl (projl rest)
                                    else Inr (projr r @ projr rest)))))"
  by (simp_all add: Let_def split: sum.splits)

lemma process_location_code [code]:
  "process_location b cfg now loc v =
     (let r = process_types b cfg allowedVehicleTypes
                (loc, [], [], v\<lparr>locationsProcessed := locationsProcessed v + 1\<rparr>)
      in if isl r then Inl (projl r)
         else (let loc2 = (fst (projr r))
                 \<lparr>lastValidated := JStr now,
                  validationIssues :=
                    JNum (Fin (of_nat (length (fst (snd (projr r))))))\<rparr>
               in if \<not> isl (generateRecommendations b cfg loc2)
                  then Inr (loc2,
                         (snd (snd (snd (projr r))))
                           \<lparr>res_issues :=
                              (if length (fst (snd (projr r))) > 0
                               then res_issues (snd (snd (snd (projr r)))) @
                                 [\<lparr> at_location = name loc2, items = fst (snd (projr r)) \<rparr>]
                               else res_issues (snd (snd (snd (projr r))))),
                            res_fixes :=
                              (if length (fst (snd (snd (projr r)))) > 0
                               then res_fixes (snd (snd (snd (projr r)))) @
                                 [\<lparr> at_location = name loc2,
                                    items = fst (snd (snd (projr r))) \<rparr>]
                               else res_fixes (snd (snd (snd (projr r))))),
                            res_recommendations :=
                              (if length (projr (generateRecommendations b cfg loc2)) > 0
                               then res_recommendations (snd (snd (snd (projr r)))) @
                                 [\<lparr> at_location = name loc2,
                                    items = projr (generateRecommendations b cfg loc2) \<rparr>]
                               else res_recommendations (snd (snd (snd (projr r)))))\<rparr>)
                  else Inl (projl (generateRecommendations b cfg loc2))))"
  by (auto simp: process_location_def Let_def split: sum.splits prod.splits)

lemma processBatch_code [code]:
  "processBatch b cfg now [] v = Inr ([], v)"
  "processBatch b cfg now (loc # batch) v =
     (let r = process_location b cfg now loc v
      in if isl r then Inl (projl r)
         else (let r2 = processBatch b cfg now batch (snd (projr r))
               in if isl r2 then Inl (projl r2)
                  else Inr (fst (projr r) # fst (projr r2), snd (projr r2))))"
  by (simp_all add: Let_def split: sum.splits prod.splits)

lemma type_utilizations_code [code]:
  "type_utilizations b ts as [] p = Inr p"
  "type_utilizations b ts as (ty # tys) p =
     (let u = aggregate_utilization b (get_total ts ty) (get_total as ty) (get_percentage p ty)
      in if isl u then Inl (projl u)
         else type_utilizations b ts as tys (set_percentage p ty (projr u)))"
  by (simp_all add: Let_def split: sum.splits)

lemma top_entries_code [code]:
  "top_entries b [] = Inr []"
  "top_entries b (loc # locs) =
     (let x = top_entry_of b loc
      in if isl x then Inl (projl x)
         else (let xs = top_entries b locs
               in if isl xs then Inl (projl xs) else Inr (projr x # projr xs)))"
  by (simp_all add: Let_def split: sum.splits)

lemma processData_code [code]:
  "processData b cfg ck data v fs =
     (let r = batch_loop b cfg ck 0 0 (locations data) v
      in if r = None then None
         else if isl (the r) then Some (Inl (projl (the r)))
         else (let u = updateStatistics b cfg (isoNow ck)
                         (data\<lparr>locations := fst (projr (the r))\<rparr>) (snd (projr (the r)))
               in if isl u then Some (Inl (projl u))
                  else Some (Inr (fst (projr u), snd (projr u),
                                  if \<not> dry_run cfg then saveData (fst (projr u)) fs else fs))))"
  by (simp add: processData_def Let_def split: option.splits sum.splits prod.splits)

lemma validate_code [code]:
  "validate b cfg ck fs =
     (let r1 = (if backup cfg then createBackup cfg ck fs new_validator
                else Inr (fs, new_validator))
      in if isl r1 then Some (Inl (projl r1), fs)
         else (let r2 = loadData b (fst (projr r1))
               in if isl r2 then Some (Inl (projl r2), fst (projr r1))
                  else (let r3 = processData b cfg ck (projr r2) (snd (projr r1)) (fst (projr r1))
                        in if r3 = None then None
                           else if isl (the r3) then Some (Inl (projl (the r3)), fst (projr r1))
                           else (let r4 = generateReport b ck (fst (projr (the r3)))
                                            (fst (snd (projr (the r3)))) (snd (snd (projr (the r3))))
                                 in if isl r4 then Some (Inl (projl r4), snd (snd (projr (the r3))))
                                    else Some (Inr \<lparr> rr_report = fst (projr r4),
                                         rr_validator = (fst (snd (projr (the r3))))
                                            \<lparr>processingTime := finishTime ck - startTime ck\<rparr>,
                                         rr_data = fst (projr (the r3)) \<rparr>,
                                       cleanup cfg ck (snd (projr r4)))))))"
  by (simp add: validate_def Let_def split: option.splits sum.splits prod.splits)


section \<open>The write-back of validated values\<close>

text \<open>
  Claim C1 states that after a run every slot of the dataset satisfies
  \<open>0 \<le> available \<le> total\<close>, with the force flag on or off. The run below, with the
  default configuration, stores the slot \<open>{ total: 10, available: -3 }\<close> as it was:
  \<open>parseNumber\<close> gives 0 for \<open>-3\<close>, and \<open>vehicleData.available || ...\<close> keeps the truthy \<open>-3\<close>.
  With the force flag, the slot \<open>{ total: 2000, available: 1500 }\<close> is stored as
  \<open>{ total: 1000, available: 1500 }\<close>.
\<close>

theorem run_keeps_invalid_slot:
  "map_option (map bus \<circ> stored_locations)
     (files_after (validate ref_builtins default_config example_clock
        (example_files
           [example_location ''A'' (num_slot 10 (- 3)) (num_slot 0 0) (num_slot 0 0)])))
   = Some [num_slot 10 (- 3)]
   \<and> map_option (map bus \<circ> stored_locations)
     (files_after (validate ref_builtins (default_config\<lparr>force := True\<rparr>) example_clock
        (example_files
           [example_location ''A'' (num_slot 2000 1500) (num_slot 0 0) (num_slot 0 0)])))
   = Some [num_slot 1000 1500]"
  by code_simp

text \<open>
  Claim C2 states that a negative \<open>available\<close> is reset to 0, with an issue and a fix
  recorded, whatever the force policy. For the slot \<open>{ total: 10, available: -3 }\<close>
  \<open>processVehicleType\<close> records no issue and no fix and leaves the slot as it was,
  with the force flag off and on: the test \<open>available < 0\<close> is on the parsed number,
  which is never negative.
\<close>

theorem negative_available_not_reset:
  "processVehicleType ref_builtins default_config
     (example_location ''A'' (num_slot 10 (- 3)) (num_slot 0 0) (num_slot 0 0)) Bus
   = Inr (example_location ''A'' (num_slot 10 (- 3)) (num_slot 0 0) (num_slot 0 0),
          \<lparr> vt_issues = [], vt_fixes = [], vt_log = [] \<rparr>)
   \<and> processVehicleType ref_builtins (default_config\<lparr>force := True\<rparr>)
     (example_location ''A'' (num_slot 10 (- 3)) (num_slot 0 0) (num_slot 0 0)) Bus
   = Inr (example_location ''A'' (num_slot 10 (- 3)) (num_slot 0 0) (num_slot 0 0),
          \<lparr> vt_issues = [], vt_fixes = [], vt_log = [] \<rparr>)"
  by code_simp

text \<open>
  Claim C6 states that the totals of a run do not depend on the order of the
  locations. A total that is a string stays a string in the slot, and \<open>+=\<close>
  concatenates: with location A holding the bus total \<open>"10"\<close> and location B the bus
  total 5, the order A, B gives the bus capacity \<open>"0105"\<close> and the order B, A gives
  \<open>"510"\<close>.
\<close>

theorem string_totals_depend_on_order:
  "bus_capacity (validate ref_builtins dry_config example_clock
     (example_files
        [example_location ''A'' (Slot (JStr ''10'') (JStr ''3'')) (num_slot 0 0) (num_slot 0 0),
         example_location ''B'' (num_slot 5 2) (num_slot 0 0) (num_slot 0 0)]))
   = Some (JStr ''0105'')
   \<and> bus_capacity (validate ref_builtins dry_config example_clock
     (example_files
        [example_location ''B'' (num_slot 5 2) (num_slot 0 0) (num_slot 0 0),
         example_location ''A'' (Slot (JStr ''10'') (JStr ''3'')) (num_slot 0 0) (num_slot 0 0)]))
   = Some (JStr ''510'')"
  by code_simp

section \<open>The update counter\<close>

text \<open>
  \<open>updateStatistics\<close> reads the counter at \<open>statistics.metadata.updateCount\<close> and
  writes it at \<open>statistics.performance.updateCount\<close>; the metadata it writes has no
  such field. So whatever the statistics were, the statistics it writes lead the next
  call to the counter 1.
\<close>

lemma updateStatistics_metadata:
  "updateStatistics b cfg now data v = Inr (data1, v1)
   \<Longrightarrow> map_option md_updateCount (metadata (statistics data1)) = Some JUndefined"
  by (auto simp: updateStatistics_def Let_def split: sum.splits)

lemma updateStatistics_counter_after:
  assumes "map_option md_updateCount (metadata (statistics data)) = Some JUndefined"
    and "updateStatistics b cfg now data v = Inr (data1, v1)"
  shows "map_option updateCount (performance (statistics data1)) = Some (JNum (Fin 1))"
  using assms
  by (auto simp: updateStatistics_def Let_def js_or_def js_add_def split: sum.splits)

text \<open>
  Claim C5 states that the counter grows by one with each run over the same file. Two
  runs in a row over a dataset without locations, each saving the file: the counter
  in the file is 1 after the first run and 1 after the second.
\<close>

theorem update_counter_stays_one:
  "map_option stored_updateCount
     (files_after (validate ref_builtins default_config example_clock (example_files [])))
   = Some (JNum (Fin 1))
   \<and> map_option stored_updateCount
     (files_after (run_again ref_builtins default_config example_clock
        (validate ref_builtins default_config example_clock (example_files []))))
   = Some (JNum (Fin 1))"
  by code_simp

section \<open>The updates validator\<close>

text \<open>
  Claim C9 states that an update whose \<open>location_id\<close> is the name of a location of the
  dataset, and whose fields pass the checks, is kept. The validator compares with the
  field \<open>nama\<close> of the locations, which a dataset of the parking validator (field
  \<open>name\<close>) does not have: the update for the location named \<open>"A"\<close> is rejected as
  \<open>Invalid location_id: A\<close> and archived, and the pending file is left empty.
\<close>

theorem update_for_known_location_rejected:
  "validateAndCleanUpdates b ub now
     \<lparr> pending = Some [empty_update\<lparr>location_id := JStr ''A'',
                                       petugas_name := JStr ''Budi''\<rparr>],
       parkir_data = Some (Document
          (Some [example_location ''A'' (num_slot 10 3) (num_slot 0 0) (num_slot 0 0)])
          (Some empty_statistics)),
       invalid_archive = [] \<rparr>
   = Inr (\<lparr> valid = 0, invalid = 1, cleaned = [] \<rparr>,
          \<lparr> pending = Some [],
            parkir_data = Some (Document
              (Some [example_location ''A'' (num_slot 10 3) (num_slot 0 0) (num_slot 0 0)])
              (Some empty_statistics)),
            invalid_archive =
              [[\<lparr> original = empty_update\<lparr>location_id := JStr ''A'',
                                              petugas_name := JStr ''Budi''\<rparr>,
                  errors = [''Invalid location_id: A''] \<rparr>]] \<rparr>)"
  by (simp add: validateAndCleanUpdates_def update_errors_def missing_string_def
      invalid_count_def strict_ne_def strict_eq_def empty_update_def example_location_def)


section \<open>The rules of the record processor\<close>

text \<open>
  A number is rounded to the nearest integer and clamped at 0; the parsed number is
  never negative.
\<close>

lemma parseNumber_number:
  "parseNumber b cfg (JNum (Fin x)) d = (Fin (of_int (max 0 \<lfloor>x + 1 / 2\<rfloor>)), [])"
proof -
  have "Math_max (Fin 0) (Math_round (Fin x)) = Fin (of_int (max 0 \<lfloor>x + 1 / 2\<rfloor>))"
    by (simp only: Math_round.simps Math_max_Fin of_int_max of_int_0)
  then show ?thesis by (simp add: parseNumber_def Let_def del: Math_round.simps)
qed

lemma parseNumber_not_negative: "\<not> num_lt (fst (parseNumber b cfg v (Fin 0))) (Fin 0)"
  by (cases "toNumber b v") (simp_all add: parseNumber_def Let_def Math_max_def)

lemma parseNumber_negative:
  assumes "x < 0"
  shows "fst (parseNumber b cfg (JNum (Fin x)) (Fin 0)) = Fin 0"
proof -
  have "\<lfloor>x + 1 / 2\<rfloor> \<le> 0"
    using assms by (simp add: floor_le_iff)
  then have m: "max 0 \<lfloor>x + 1 / 2\<rfloor> = 0" by simp
  have "fst (parseNumber b cfg (JNum (Fin x)) (Fin 0)) = Fin (of_int (max 0 \<lfloor>x + 1 / 2\<rfloor>))"
    by (simp only: parseNumber_number fst_conv)
  then show ?thesis by (simp only: m of_int_0)
qed

text \<open>What each rule does to the issues and to the total of the slot.\<close>

lemma below_minimum_issues:
  "vd_issues (rule_below_minimum b cfg ty t d) =
     vd_issues d @
       (if num_lt t (Fin (minCapacity cfg))
        then [type_name ty @ '': Total capacity ('' @ num_str b t
              @ '') below minimum ('' @ num_str b (Fin (minCapacity cfg)) @ '')'']
        else [])"
  by (simp add: rule_below_minimum_def Let_def)

lemma below_minimum_total:
  "vd_total (rule_below_minimum b cfg ty t d) =
     (if num_lt t (Fin (minCapacity cfg)) \<and> force cfg then JNum (Fin (minCapacity cfg))
      else vd_total d)"
  by (simp add: rule_below_minimum_def Let_def)

lemma below_minimum_available:
  "vd_available (rule_below_minimum b cfg ty t d) = vd_available d"
  by (simp add: rule_below_minimum_def Let_def)

lemma above_maximum_issues:
  "vd_issues (rule_above_maximum b cfg ty t d) =
     vd_issues d @
       (if num_gt t (Fin (maxCapacity cfg))
        then [type_name ty @ '': Total capacity ('' @ num_str b t
              @ '') exceeds maximum ('' @ num_str b (Fin (maxCapacity cfg)) @ '')'']
        else [])"
  by (simp add: rule_above_maximum_def Let_def)

lemma above_maximum_total:
  "vd_total (rule_above_maximum b cfg ty t d) =
     (if num_gt t (Fin (maxCapacity cfg)) \<and> force cfg then JNum (Fin (maxCapacity cfg))
      else vd_total d)"
  by (simp add: rule_above_maximum_def Let_def)

lemma above_maximum_available:
  "vd_available (rule_above_maximum b cfg ty t d) = vd_available d"
  by (simp add: rule_above_maximum_def Let_def)

lemma negative_available_issues:
  "vd_issues (rule_negative_available b ty a d) =
     vd_issues d @
       (if num_lt a (Fin 0)
        then [type_name ty @ '': Negative available spaces ('' @ num_str b a @ '')'']
        else [])"
  by (simp add: rule_negative_available_def)

lemma negative_available_total:
  "vd_total (rule_negative_available b ty a d) = vd_total d"
  by (simp add: rule_negative_available_def)

lemma negative_available_available:
  "vd_available (rule_negative_available b ty a d) =
     (if num_lt a (Fin 0) then JNum (Fin 0) else vd_available d)"
  by (simp add: rule_negative_available_def)

lemma exceeds_total_issues:
  "vd_issues (rule_exceeds_total b ty t a d) =
     vd_issues d @
       (if num_gt a t
        then [type_name ty @ '': Available ('' @ num_str b a
              @ '') exceeds total ('' @ num_str b t @ '')'']
        else [])"
  by (simp add: rule_exceeds_total_def)

lemma exceeds_total_total:
  "vd_total (rule_exceeds_total b ty t a d) = vd_total d"
  by (simp add: rule_exceeds_total_def)

lemma exceeds_total_available:
  "vd_available (rule_exceeds_total b ty t a d) =
     (if num_gt a t then JNum t else vd_available d)"
  by (simp add: rule_exceeds_total_def)

lemma update_validated_issues:
  "vd_issues (update_validated b t a d) = vd_issues d"
  by (simp add: update_validated_def Let_def)

lemma update_validated_total:
  "vd_total (update_validated b t a d) = js_or (vd_total d) (JNum t)"
  by (simp add: update_validated_def Let_def)

lemma update_validated_available:
  "vd_available (update_validated b t a d) =
     js_or (vd_available d) (JNum (Math_min a (toNumber b (js_or (vd_total d) (JNum t)))))"
  by (simp add: update_validated_def Let_def)

lemma record_change_fields:
  "vd_issues (record_change b ty T A d) = vd_issues d"
  "vd_total (record_change b ty T A d) = vd_total d"
  "vd_available (record_change b ty T A d) = vd_available d"
  by (simp_all add: record_change_def)

lemmas rule_fields =
  below_minimum_issues below_minimum_total below_minimum_available
  above_maximum_issues above_maximum_total above_maximum_available
  negative_available_issues negative_available_total negative_available_available
  exceeds_total_issues exceeds_total_total exceeds_total_available
  update_validated_issues update_validated_total update_validated_available
  record_change_fields

text \<open>
  The issues and the slot \<open>processVehicleType\<close> returns, in terms of the two parsed
  numbers.
\<close>

lemma processVehicleType_result:
  assumes slot: "get_slot loc ty = Slot T A"
    and t: "t = fst (parseNumber b cfg T (Fin 0))"
    and a: "a = fst (parseNumber b cfg A (Fin 0))"
    and run: "processVehicleType b cfg loc ty = Inr (loc', res)"
  shows "vt_issues res =
           (if num_lt t (Fin (minCapacity cfg))
            then [type_name ty @ '': Total capacity ('' @ num_str b t
                  @ '') below minimum ('' @ num_str b (Fin (minCapacity cfg)) @ '')'']
            else [])
           @ (if num_gt t (Fin (maxCapacity cfg))
              then [type_name ty @ '': Total capacity ('' @ num_str b t
                    @ '') exceeds maximum ('' @ num_str b (Fin (maxCapacity cfg)) @ '')'']
              else [])
           @ (if num_gt a t
              then [type_name ty @ '': Available ('' @ num_str b a
                    @ '') exceeds total ('' @ num_str b t @ '')'']
              else [])"
    and "opt_total (get_slot loc' ty) =
           js_or (if num_gt t (Fin (maxCapacity cfg)) \<and> force cfg
                  then JNum (Fin (maxCapacity cfg))
                  else if num_lt t (Fin (minCapacity cfg)) \<and> force cfg
                  then JNum (Fin (minCapacity cfg))
                  else T)
             (JNum t)"
    and "opt_available (get_slot loc' ty) =
           js_or (if num_gt a t then JNum t else A)
             (JNum (Math_min a (toNumber b (opt_total (get_slot loc' ty)))))"
proof -
  have neg: "\<not> num_lt a (Fin 0)"
    using parseNumber_not_negative [of b cfg A] a by simp
  obtain lt where pt: "parseNumber b cfg T (Fin 0) = (t, lt)"
    using t by (cases "parseNumber b cfg T (Fin 0)") simp
  obtain la where pa: "parseNumber b cfg A (Fin 0) = (a, la)"
    using a by (cases "parseNumber b cfg A (Fin 0)") simp
  let ?d = "record_change b ty T A
              (update_validated b t a
                (rule_exceeds_total b ty t a
                  (rule_negative_available b ty a
                    (rule_above_maximum b cfg ty t
                      (rule_below_minimum b cfg ty t
                        \<lparr> vd_total = T, vd_available = A, vd_issues = [], vd_fixes = [] \<rparr>)))))"
  from run slot pt pa
  have res: "res = \<lparr> vt_issues = vd_issues ?d, vt_fixes = vd_fixes ?d, vt_log = lt @ la \<rparr>"
    and loc': "loc' = set_slot loc ty (Slot (vd_total ?d) (vd_available ?d))"
    by (simp_all add: processVehicleType_def Let_def)
  have gs: "get_slot loc' ty = Slot (vd_total ?d) (vd_available ?d)"
    unfolding loc' by (cases ty) simp_all
  show "vt_issues res =
           (if num_lt t (Fin (minCapacity cfg))
            then [type_name ty @ '': Total capacity ('' @ num_str b t
                  @ '') below minimum ('' @ num_str b (Fin (minCapacity cfg)) @ '')'']
            else [])
           @ (if num_gt t (Fin (maxCapacity cfg))
              then [type_name ty @ '': Total capacity ('' @ num_str b t
                    @ '') exceeds maximum ('' @ num_str b (Fin (maxCapacity cfg)) @ '')'']
              else [])
           @ (if num_gt a t
              then [type_name ty @ '': Available ('' @ num_str b a
                    @ '') exceeds total ('' @ num_str b t @ '')'']
              else [])"
    unfolding res by (simp add: rule_fields neg del: append.simps)
  show tot: "opt_total (get_slot loc' ty) =
           js_or (if num_gt t (Fin (maxCapacity cfg)) \<and> force cfg
                  then JNum (Fin (maxCapacity cfg))
                  else if num_lt t (Fin (minCapacity cfg)) \<and> force cfg
                  then JNum (Fin (minCapacity cfg))
                  else T)
             (JNum t)"
    unfolding gs by (simp add: rule_fields)
  show "opt_available (get_slot loc' ty) =
           js_or (if num_gt a t then JNum t else A)
             (JNum (Math_min a (toNumber b (opt_total (get_slot loc' ty)))))"
    unfolding gs by (simp add: rule_fields neg)
qed


section \<open>The range check\<close>

text \<open>
  Claim C3 states that a total outside \<open>[minCapacity, maxCapacity]\<close>, a negative
  total under the default minimum of 0 included, always has an issue recorded, and
  that the total is clamped to the nearest bound when the force flag is set. The range
  check is on the parsed number, and a negative number is parsed as 0: for the slot
  \<open>{ total: -5, available: 10 }\<close> the only issue is the one about \<open>available\<close>, the fix
  recorded is \<open>Fixed available spaces to match total: 0\<close>, and the slot stored is
  \<open>{ total: -5, available: -5 }\<close>, with the force flag off and on.
\<close>

theorem negative_total_not_reported:
  "map_sum id (\<lambda>r. (get_slot (fst r) Bus, vt_issues (snd r), vt_fixes (snd r)))
     (processVehicleType ref_builtins default_config
        (example_location ''A'' (num_slot (- 5) 10) (num_slot 0 0) (num_slot 0 0)) Bus)
   = Inr (num_slot (- 5) (- 5),
          [''bus: Available (10) exceeds total (0)''],
          [''Fixed available spaces to match total: 0'',
           ''Updated bus: -5'' @ arrow @ ''-5, 10'' @ arrow @ ''-5''])
   \<and> map_sum id (\<lambda>r. (get_slot (fst r) Bus, vt_issues (snd r), vt_fixes (snd r)))
     (processVehicleType ref_builtins (default_config\<lparr>force := True\<rparr>)
        (example_location ''A'' (num_slot (- 5) 10) (num_slot 0 0) (num_slot 0 0)) Bus)
   = Inr (num_slot (- 5) (- 5),
          [''bus: Available (10) exceeds total (0)''],
          [''Fixed available spaces to match total: 0'',
           ''Updated bus: -5'' @ arrow @ ''-5, 10'' @ arrow @ ''-5''])"
  by code_simp

text \<open>
  The same for every negative total, when the minimum is 0 or less: no issue about
  the range is recorded, and the total is stored as it was, whatever the force flag.
\<close>

lemma negative_total_kept:
  assumes slot: "get_slot loc ty = Slot (JNum (Fin x)) A"
    and neg: "x < 0"
    and a: "a = fst (parseNumber b cfg A (Fin 0))"
    and bounds: "minCapacity cfg \<le> 0" "0 \<le> maxCapacity cfg"
    and run: "processVehicleType b cfg loc ty = Inr (loc', res)"
  shows "opt_total (get_slot loc' ty) = JNum (Fin x)"
    and "vt_issues res =
           (if num_gt a (Fin 0)
            then [type_name ty @ '': Available ('' @ num_str b a
                  @ '') exceeds total ('' @ num_str b (Fin 0) @ '')'']
            else [])"
proof -
  have t: "fst (parseNumber b cfg (JNum (Fin x)) (Fin 0)) = Fin 0"
    using parseNumber_negative [OF neg] .
  note r = processVehicleType_result [OF slot t [symmetric] a run]
  from r(2) neg bounds show "opt_total (get_slot loc' ty) = JNum (Fin x)"
    by (simp add: js_or_def)
  from r(1) bounds show "vt_issues res =
           (if num_gt a (Fin 0)
            then [type_name ty @ '': Available ('' @ num_str b a
                  @ '') exceeds total ('' @ num_str b (Fin 0) @ '')'']
            else [])"
    by simp
qed


section \<open>Safe number parsing\<close>

text \<open>
  A warning passes the filter of \<open>log\<close> at every level the table \<open>logLevels\<close> has and
  for every name that the table does not know; under a name that the table inherits
  nothing passes.
\<close>

lemma logMsg_warn:
  "logMsg cfg WARN m = (if log_level cfg \<in> set inherited_names then [] else [(WARN, m)])"
  by (simp add: logMsg_def logLevel_def logLevels_def inherited_names_def)

lemma round_nearest: "\<bar>of_int \<lfloor>x + 1 / 2\<rfloor> - (x::rat)\<bar> \<le> 1 / 2"
  by linarith

text \<open>
  \<open>parseNumber\<close> on every value, by the number the value is. An empty string, a
  missing value and \<open>null\<close> give the default. Otherwise a finite number is rounded to
  the nearest integer, a tie upwards, and a negative result is replaced by 0; plus
  infinity stays, minus infinity gives 0; and a value that is no number gives the
  default, with a warning for the logger.
\<close>

lemma parseNumber_cases:
  "parseNumber b cfg v d =
     (if v = JNull \<or> v = JUndefined \<or> v = JStr [] then (d, [])
      else case toNumber b v of
             NaN \<Rightarrow> (d, logMsg cfg WARN (''Invalid number value: '' @ toString b v
                                          @ '', using default: '' @ num_str b d))
           | Fin x \<Rightarrow> (Fin (of_int (max 0 \<lfloor>x + 1 / 2\<rfloor>)), [])
           | PInf \<Rightarrow> (PInf, [])
           | NInf \<Rightarrow> (Fin 0, []))"
proof (cases "toNumber b v")
  case (Fin x)
  have "Math_max (Fin 0) (Math_round (Fin x)) = Fin (of_int (max 0 \<lfloor>x + 1 / 2\<rfloor>))"
    by (simp only: Math_round.simps Math_max_Fin of_int_max of_int_0)
  with Fin show ?thesis by (simp add: parseNumber_def Let_def del: Math_round.simps)
qed (simp_all add: parseNumber_def Let_def Math_max_def)

text \<open>
  Claim C4. The safe parse is a function of its input. For a built-in \<open>Number\<close> that
  reads \<open>"10"\<close> as 10 and \<open>"abc"\<close> as no number: \<open>"10"\<close> gives 10, \<open>"abc"\<close> gives the
  default 0 and a warning for the logger, \<open>null\<close> gives 0 and \<open>-5\<close> gives 0. On every
  value: an empty string, a missing value and \<open>null\<close> give the default; otherwise the
  value is taken as a number, a finite number is rounded to the nearest integer (at
  most a half away, a tie upwards) and a negative result is replaced by 0, plus
  infinity stays and minus infinity gives 0, and a value that is no number gives the
  default and a warning for the logger. The logger prints a warning at each of the
  levels \<open>error\<close>, \<open>warn\<close>, \<open>info\<close> and \<open>debug\<close> and under every other name of a level,
  but for the twelve names that the table of the levels inherits, under which it
  prints nothing.
\<close>

theorem parseNumber_safe_parse:
  assumes ten: "str_num b ''10'' = Fin 10" and abc: "str_num b ''abc'' = NaN"
  shows "parseNumber b cfg (JStr ''10'') (Fin 0) = (Fin 10, [])
       \<and> parseNumber b cfg (JStr ''abc'') (Fin 0)
           = (Fin 0, logMsg cfg WARN (''Invalid number value: abc, using default: ''
                                       @ num_str b (Fin 0)))
       \<and> logMsg cfg WARN m
           = (if log_level cfg \<in> set inherited_names then [] else [(WARN, m)])
       \<and> parseNumber b cfg JNull (Fin 0) = (Fin 0, [])
       \<and> parseNumber b cfg (JNum (Fin (- 5))) (Fin 0) = (Fin 0, [])
       \<and> parseNumber b cfg v d =
            (if v = JNull \<or> v = JUndefined \<or> v = JStr [] then (d, [])
             else case toNumber b v of
                    NaN \<Rightarrow> (d, logMsg cfg WARN (''Invalid number value: '' @ toString b v
                                                 @ '', using default: '' @ num_str b d))
                  | Fin x \<Rightarrow> (Fin (of_int (max 0 \<lfloor>x + 1 / 2\<rfloor>)), [])
                  | PInf \<Rightarrow> (PInf, [])
                  | NInf \<Rightarrow> (Fin 0, []))
       \<and> \<bar>of_int \<lfloor>y + 1 / 2\<rfloor> - (y::rat)\<bar> \<le> 1 / 2
       \<and> (0 \<le> y \<longrightarrow> \<bar>of_int (max 0 \<lfloor>y + 1 / 2\<rfloor>) - y\<bar> \<le> 1 / 2)"
proof -
  have "\<lfloor>10 + 1 / 2 :: rat\<rfloor> = 10" by linarith
  then have p10: "parseNumber b cfg (JStr ''10'') (Fin 0) = (Fin 10, [])"
    by (simp add: parseNumber_cases ten del: of_int_add)
  have pabc: "parseNumber b cfg (JStr ''abc'') (Fin 0)
           = (Fin 0, logMsg cfg WARN (''Invalid number value: abc, using default: ''
                                       @ num_str b (Fin 0)))"
    by (simp add: parseNumber_cases abc)
  have null0: "parseNumber b cfg JNull (Fin 0) = (Fin 0, [])"
    by (simp add: parseNumber_cases)
  have pm5: "parseNumber b cfg (JNum (Fin (- 5))) (Fin 0) = (Fin 0, [])"
    by (simp add: parseNumber_number)
  have near: "0 \<le> y \<longrightarrow> \<bar>of_int (max 0 \<lfloor>y + 1 / 2\<rfloor>) - y\<bar> \<le> 1 / 2"
  proof
    assume "0 \<le> y"
    then have "0 \<le> \<lfloor>y + 1 / 2\<rfloor>" by simp
    then have "max 0 \<lfloor>y + 1 / 2\<rfloor> = \<lfloor>y + 1 / 2\<rfloor>" by simp
    with round_nearest [of y] show "\<bar>of_int (max 0 \<lfloor>y + 1 / 2\<rfloor>) - y\<bar> \<le> 1 / 2"
      by simp
  qed
  from p10 pabc logMsg_warn [of cfg m] null0 pm5 parseNumber_cases [of b cfg v d]
    round_nearest [of y] near
  show ?thesis by blast
qed

lemma ref_ten: "str_num ref_builtins ''10'' = Fin 10"
  by code_simp

lemma ref_abc: "str_num ref_builtins ''abc'' = NaN"
  by code_simp

theorem parseNumber_safe_parse_witness:
  "parseNumber ref_builtins default_config (JStr ''10'') (Fin 0) = (Fin 10, [])
   \<and> parseNumber ref_builtins default_config (JStr ''abc'') (Fin 0)
       = (Fin 0, [(WARN, ''Invalid number value: abc, using default: 0'')])
   \<and> parseNumber ref_builtins default_config (JNum (Fin (5 / 2))) (Fin 0) = (Fin 3, [])
   \<and> \<bar>3 - (5 / 2 :: rat)\<bar> \<le> 1 / 2"
proof -
  have z: "num_str ref_builtins (Fin 0) = ''0''" by code_simp
  have f: "\<lfloor>5 / 2 + 1 / 2 :: rat\<rfloor> = 3" by simp
  have l: "log_level default_config \<notin> set inherited_names" by code_simp
  note t = parseNumber_safe_parse [OF ref_ten ref_abc, of default_config _ "JNum (Fin (5 / 2))"
      "Fin 0" "5 / 2"]
  from t have "parseNumber ref_builtins default_config (JStr ''10'') (Fin 0) = (Fin 10, [])"
    by blast
  moreover from t [of "''Invalid number value: abc, using default: 0''"] l z
  have "parseNumber ref_builtins default_config (JStr ''abc'') (Fin 0)
       = (Fin 0, [(WARN, ''Invalid number value: abc, using default: 0'')])"
    by simp
  moreover from t have "parseNumber ref_builtins default_config (JNum (Fin (5 / 2))) (Fin 0)
       = (Fin (of_int (max 0 \<lfloor>5 / 2 + 1 / 2 :: rat\<rfloor>)), [])"
    by simp
  then have "parseNumber ref_builtins default_config (JNum (Fin (5 / 2))) (Fin 0) = (Fin 3, [])"
    by (simp only: f) simp
  moreover have "\<bar>3 - (5 / 2 :: rat)\<bar> \<le> 1 / 2" by simp
  ultimately show ?thesis by blast
qed

text \<open>
  The twelve names: under \<open>--log-level=constructor\<close> the lookup
  \<open>logLevels[this.config['log-level']]\<close> finds the function that every object inherits,
  the fallback \<open>|| 2\<close> is not taken, and the logger prints nothing; under
  \<open>--log-level=verbose\<close>, a name that the table does not have either, the fallback is
  taken and the warning is printed.
\<close>

lemma warning_under_unknown_levels:
  "parseNumber ref_builtins (default_config\<lparr>log_level := ''constructor''\<rparr>)
     (JStr ''abc'') (Fin 0) = (Fin 0, [])
   \<and> parseNumber ref_builtins (default_config\<lparr>log_level := ''verbose''\<rparr>)
     (JStr ''abc'') (Fin 0)
     = (Fin 0, [(WARN, ''Invalid number value: abc, using default: 0'')])"
  by code_simp


section \<open>The batches\<close>

text \<open>
  \<open>processBatch\<close> returns as many locations as it was given, and processing a list is
  processing its front and then its back.
\<close>

lemma processBatch_length:
  "processBatch b cfg now xs v = Inr (ys, v') \<Longrightarrow> length ys = length xs"
proof (induction xs arbitrary: ys v)
  case Nil
  then show ?case by simp
next
  case (Cons x xs)
  then show ?case
    by (fastforce split: sum.splits prod.splits)
qed

lemma processBatch_append:
  "processBatch b cfg now (xs @ ys) v =
     (case processBatch b cfg now xs v of
        Inl e \<Rightarrow> Inl e
      | Inr (xs', v1) \<Rightarrow>
         (case processBatch b cfg now ys v1 of
            Inl e \<Rightarrow> Inl e
          | Inr (ys', v2) \<Rightarrow> Inr (xs' @ ys', v2)))"
proof (induction xs arbitrary: v)
  case Nil
  then show ?case by (simp split: sum.splits)
next
  case (Cons x xs)
  then show ?case by (simp split: sum.splits prod.splits)
qed

text \<open>
  When the loop of \<open>processData\<close> returns locations, they are the locations before
  the index, followed by what \<open>processBatch\<close> makes of the rest in one go: the batch
  size and the clock decide whether the loop returns, not what it returns.
\<close>

lemma batch_loop_result:
  assumes "batch_loop b cfg ck k i locs v = Some y"
  shows "\<forall>locs' v'. y = Inr (locs', v') \<longrightarrow>
           (\<exists>rest. processBatch b cfg (isoNow ck) (drop i locs) v = Inr (rest, v')
                   \<and> locs' = take i locs @ rest)"
proof (rule batch_loop.raw_induct
    [where P = "\<lambda>b cfg ck k i locs v y. \<forall>locs' v'. y = Inr (locs', v') \<longrightarrow>
           (\<exists>rest. processBatch b cfg (isoNow ck) (drop i locs) v = Inr (rest, v')
                   \<and> locs' = take i locs @ rest)", OF _ assms], goal_cases)
  case (1 loop b cfg ck k i locs v y)
  show ?case
  proof (cases "i < length locs")
    case False
    with 1(2) have y: "y = Inr (locs, v)" by simp
    from False have e: "drop i locs = []" "take i locs = locs" by simp_all
    show ?thesis
    proof (intro allI impI)
      fix locs' v'
      assume "y = Inr (locs', v')"
      with y have "locs' = locs" "v' = v" by simp_all
      with e have "processBatch b cfg (isoNow ck) (drop i locs) v = Inr ([], v')
                   \<and> locs' = take i locs @ []"
        by simp
      then show "\<exists>rest. processBatch b cfg (isoNow ck) (drop i locs) v = Inr (rest, v')
                   \<and> locs' = take i locs @ rest"
        by (auto intro: exI [of _ "[]"])
    qed
  next
    case True
    let ?n = "batchSize cfg"
    show ?thesis
    proof (intro allI impI)
      fix locs' v'
      assume y: "y = Inr (locs', v')"
      from 1(2) True y obtain r where
        r: "processBatch b cfg (isoNow ck) (take ?n (drop i locs)) v = Inr r"
        and rec: "loop b cfg ck (k + 1) (i + ?n)
                    (take i locs @ fst r @ drop (i + ?n) locs) (snd r) = Some (Inr (locs', v'))"
        by (auto split: sum.splits if_splits)
      let ?locs2 = "take i locs @ fst r @ drop (i + ?n) locs"
      have len: "length (fst r) = length (take ?n (drop i locs))"
        using processBatch_length [of b cfg "isoNow ck" "take ?n (drop i locs)" v "fst r" "snd r"] r
        by simp
      have d: "drop (i + ?n) ?locs2 = drop (i + ?n) locs"
        using True len by (auto simp: min_def)
      have t: "take (i + ?n) ?locs2 = take i locs @ fst r"
        using True len by (auto simp: min_def)
      from 1(1) [OF rec] obtain rest where
        rest: "processBatch b cfg (isoNow ck) (drop (i + ?n) ?locs2) (snd r) = Inr (rest, v')"
        and l: "locs' = take (i + ?n) ?locs2 @ rest"
        by blast
      have split: "drop i locs = take ?n (drop i locs) @ drop (i + ?n) locs"
        by (metis append_take_drop_id drop_drop add.commute)
      have "processBatch b cfg (isoNow ck) (drop i locs) v = Inr (fst r @ rest, v')"
        using r rest d processBatch_append [of b cfg "isoNow ck" "take ?n (drop i locs)"
            "drop (i + ?n) locs" v]
        by (subst split) (simp split: prod.splits)
      with l t show "\<exists>rest. processBatch b cfg (isoNow ck) (drop i locs) v = Inr (rest, v')
                   \<and> locs' = take i locs @ rest"
        by simp
    qed
  qed
qed

lemma processData_result:
  assumes "processData b cfg ck data v fs = Some (Inr (data1, v2, fs1))"
  shows "\<exists>locs v1. processBatch b cfg (isoNow ck) (locations data) v = Inr (locs, v1)
           \<and> updateStatistics b cfg (isoNow ck) (data\<lparr>locations := locs\<rparr>) v1 = Inr (data1, v2)
           \<and> fs1 = (if \<not> dry_run cfg then saveData data1 fs else fs)"
proof -
  from assms obtain locs v1 where
    loop: "batch_loop b cfg ck 0 0 (locations data) v = Some (Inr (locs, v1))"
    and upd: "updateStatistics b cfg (isoNow ck) (data\<lparr>locations := locs\<rparr>) v1 = Inr (data1, v2)"
    and fs1: "fs1 = (if \<not> dry_run cfg then saveData data1 fs else fs)"
    by (auto simp: processData_def split: option.splits sum.splits prod.splits)
  from batch_loop_result [OF loop] have
    "processBatch b cfg (isoNow ck) (locations data) v = Inr (locs, v1)"
    by auto
  with upd fs1 show ?thesis by blast
qed

text \<open>The steps of a run that ends with a report.\<close>

lemma validate_result:
  assumes "validate b cfg ck fs = Some (Inr r, fs')"
  shows "\<exists>fs1 v1 data data1 v2 fs2 fs3.
           (if backup cfg then createBackup cfg ck fs new_validator
            else Inr (fs, new_validator)) = Inr (fs1, v1)
           \<and> loadData b fs1 = Inr data
           \<and> processData b cfg ck data v1 fs1 = Some (Inr (data1, v2, fs2))
           \<and> generateReport b ck data1 v2 fs2 = Inr (rr_report r, fs3)
           \<and> rr_validator r = v2\<lparr>processingTime := finishTime ck - startTime ck\<rparr>
           \<and> rr_data r = data1
           \<and> fs' = cleanup cfg ck fs3"
  using assms
  by (auto simp: validate_def split: option.splits sum.splits prod.splits)


section \<open>Utilization\<close>

text \<open>
  A number above zero is not zero: the division of \<open>percent_used\<close> is reached with a
  divisor that is not zero wherever it is guarded, and its result is the expression
  of the specification.
\<close>

lemma percent_used_guarded:
  assumes "num_gt (toNumber b t) (Fin 0)"
  shows "percent_used b t a = Inr (utilization_spec (toNumber b t) (toNumber b a))"
proof -
  from assms have "toNumber b t \<noteq> Fin 0" by auto
  with assms show ?thesis
    by (simp add: percent_used_def num_div_def utilization_spec_def)
qed

lemma slot_utilization_spec:
  "slot_utilization b t a = Inr (utilization_spec (toNumber b t) (toNumber b a))"
  by (simp add: slot_utilization_def percent_used_guarded) (simp add: utilization_spec_def)

lemma location_utilization_spec:
  "location_utilization b t a = Inr (utilization_spec (toNumber b t) (toNumber b a))"
  by (simp add: location_utilization_def percent_used_guarded) (simp add: utilization_spec_def)

text \<open>
  In \<open>updateStatistics\<close> a percentage is assigned only when the total is above zero;
  otherwise it stays what it was, which is the 0 of the constructor.
\<close>

lemma aggregate_utilization_spec:
  "aggregate_utilization b t a old =
     Inr (if num_gt (toNumber b t) (Fin 0)
          then utilization_spec (toNumber b t) (toNumber b a) else old)"
  by (simp add: aggregate_utilization_def percent_used_guarded)

lemma aggregate_utilization_zero:
  "aggregate_utilization b t a (Fin 0) = Inr (utilization_spec (toNumber b t) (toNumber b a))"
  by (simp add: aggregate_utilization_spec) (simp add: utilization_spec_def)

lemma recommend_spec:
  "recommend b cfg ty t a =
     Inr (recommendations_for b cfg ty t a (utilization_spec (toNumber b t) (toNumber b a)))"
  by (simp add: recommend_def slot_utilization_spec)

lemma recommend_types_spec:
  "recommend_types b cfg loc tys =
     (if list_ex (\<lambda>ty. get_slot loc ty = Absent) tys then Inl TypeError
      else Inr (concat (map (\<lambda>ty.
             recommendations_for b cfg ty (opt_total (get_slot loc ty))
               (opt_available (get_slot loc ty))
               (utilization_spec (toNumber b (opt_total (get_slot loc ty)))
                  (toNumber b (opt_available (get_slot loc ty))))) tys)))"
proof (induction tys)
  case Nil
  then show ?case by simp
next
  case (Cons ty tys)
  show ?case
  proof (cases "get_slot loc ty")
    case Absent
    then show ?thesis by simp
  next
    case (Prim p)
    with Cons.IH show ?thesis by (simp add: recommend_spec)
  next
    case (Slot t a)
    with Cons.IH show ?thesis by (simp add: recommend_spec)
  qed
qed

lemma generateRecommendations_spec:
  "generateRecommendations b cfg loc =
     (if bus loc = Absent \<or> mobil loc = Absent \<or> motor loc = Absent then Inl TypeError
      else Inr (concat (map (\<lambda>ty.
             recommendations_for b cfg ty (opt_total (get_slot loc ty))
               (opt_available (get_slot loc ty))
               (utilization_spec (toNumber b (opt_total (get_slot loc ty)))
                  (toNumber b (opt_available (get_slot loc ty))))) allowedVehicleTypes)))"
  unfolding generateRecommendations_def recommend_types_spec
  by (simp add: allowedVehicleTypes_def)

lemma type_utilizations_spec:
  "type_utilizations b ts as allowedVehicleTypes p =
     Inr \<lparr> p_bus = (if num_gt (toNumber b (t_bus ts)) (Fin 0)
                     then utilization_spec (toNumber b (t_bus ts)) (toNumber b (t_bus as))
                     else p_bus p),
           p_mobil = (if num_gt (toNumber b (t_mobil ts)) (Fin 0)
                      then utilization_spec (toNumber b (t_mobil ts)) (toNumber b (t_mobil as))
                      else p_mobil p),
           p_motor = (if num_gt (toNumber b (t_motor ts)) (Fin 0)
                      then utilization_spec (toNumber b (t_motor ts)) (toNumber b (t_motor as))
                      else p_motor p),
           p_overall = p_overall p \<rparr>"
  by (simp add: allowedVehicleTypes_def aggregate_utilization_spec)

lemma updateStatistics_total: "\<exists>r. updateStatistics b cfg now data v = Inr r"
  by (simp add: updateStatistics_def Let_def type_utilizations_spec aggregate_utilization_spec)

text \<open>
  The percentages \<open>updateStatistics\<close> leaves in the validator, when they were those of
  the constructor before.
\<close>

lemma updateStatistics_spec:
  assumes "res_utilization v = res_utilization new_validator"
  shows "map_sum id (\<lambda>r. res_utilization (snd r)) (updateStatistics b cfg now data v) =
     Inr \<lparr> p_bus = utilization_spec (toNumber b (t_bus (res_totals v)))
                     (toNumber b (t_bus (res_available v))),
           p_mobil = utilization_spec (toNumber b (t_mobil (res_totals v)))
                       (toNumber b (t_mobil (res_available v))),
           p_motor = utilization_spec (toNumber b (t_motor (res_totals v)))
                       (toNumber b (t_motor (res_available v))),
           p_overall = utilization_spec (toNumber b (sum_values b (res_totals v)))
                         (toNumber b (sum_values b (res_available v))) \<rparr>"
proof -
  have z: "p_bus (res_utilization v) = Fin 0" "p_mobil (res_utilization v) = Fin 0"
    "p_motor (res_utilization v) = Fin 0" "p_overall (res_utilization v) = Fin 0"
    unfolding assms by (simp_all add: new_validator_def)
  have u: "(if num_gt t (Fin 0) then utilization_spec t a else Fin 0) = utilization_spec t a"
    for t a
    by (simp add: utilization_spec_def)
  show ?thesis
    by (simp add: updateStatistics_def Let_def type_utilizations_spec
        aggregate_utilization_spec z u cong: if_cong)
qed

lemma top_entry_of_spec:
  "top_entry_of b loc =
     Inr \<lparr> te_name = name loc, te_capacity = totalCapacity b loc,
           te_available = totalAvailable b loc,
           te_utilization =
             toFixed1 b (utilization_spec (toNumber b (totalCapacity b loc))
                           (toNumber b (totalAvailable b loc))) \<rparr>"
  by (simp add: top_entry_of_def location_utilization_spec)

lemma top_entries_spec:
  "top_entries b locs =
     Inr (map (\<lambda>loc. \<lparr> te_name = name loc, te_capacity = totalCapacity b loc,
                       te_available = totalAvailable b loc,
                       te_utilization =
                         toFixed1 b (utilization_spec (toNumber b (totalCapacity b loc))
                                       (toNumber b (totalAvailable b loc))) \<rparr>) locs)"
  by (induction locs) (simp_all add: top_entry_of_spec)

text \<open>
  Claim C7. The three functions that compute a utilization return what the utilization
  of the specification gives, \<open>(total - available) / total * 100\<close> when \<open>total > 0\<close> and
  0 otherwise, and none of them divides by zero:
  \<^item> \<open>generateRecommendations\<close> returns, for each vehicle type, the recommendations for
    that utilization of the slot (it throws when a slot is missing);
  \<^item> \<open>updateStatistics\<close>, started with the percentages of the constructor, leaves that
    utilization of the summed totals for each vehicle type and for the whole, and for
    no validator does it divide by zero;
  \<^item> \<open>getTopUtilizedLocations\<close> ranks the locations with that utilization of their
    summed capacity, printed with one decimal.
\<close>

theorem utilization_guarded:
  "generateRecommendations b cfg loc =
     (if bus loc = Absent \<or> mobil loc = Absent \<or> motor loc = Absent then Inl TypeError
      else Inr (concat (map (\<lambda>ty.
             recommendations_for b cfg ty (opt_total (get_slot loc ty))
               (opt_available (get_slot loc ty))
               (utilization_spec (toNumber b (opt_total (get_slot loc ty)))
                  (toNumber b (opt_available (get_slot loc ty))))) allowedVehicleTypes)))
   \<and> map_sum id (\<lambda>r. res_utilization (snd r))
        (updateStatistics b cfg now data
           (v\<lparr>res_utilization := res_utilization new_validator\<rparr>)) =
       Inr \<lparr> p_bus = utilization_spec (toNumber b (t_bus (res_totals v)))
                       (toNumber b (t_bus (res_available v))),
             p_mobil = utilization_spec (toNumber b (t_mobil (res_totals v)))
                         (toNumber b (t_mobil (res_available v))),
             p_motor = utilization_spec (toNumber b (t_motor (res_totals v)))
                         (toNumber b (t_motor (res_available v))),
             p_overall = utilization_spec (toNumber b (sum_values b (res_totals v)))
                           (toNumber b (sum_values b (res_available v))) \<rparr>
   \<and> updateStatistics b cfg now data v \<noteq> Inl DivisionByZero
   \<and> getTopUtilizedLocations b data n =
       Inr (take n (sort_by_utilization b
              (filter (\<lambda>x. num_gt (toNumber b (te_capacity x)) (Fin 0))
                 (map (\<lambda>loc. \<lparr> te_name = name loc, te_capacity = totalCapacity b loc,
                                 te_available = totalAvailable b loc,
                                 te_utilization =
                                   toFixed1 b
                                     (utilization_spec (toNumber b (totalCapacity b loc))
                                        (toNumber b (totalAvailable b loc))) \<rparr>)
                    (locations data)))))"
proof -
  have u: "updateStatistics b cfg now data v \<noteq> Inl DivisionByZero"
    using updateStatistics_total [of b cfg now data v] by auto
  have s: "map_sum id (\<lambda>r. res_utilization (snd r))
        (updateStatistics b cfg now data
           (v\<lparr>res_utilization := res_utilization new_validator\<rparr>)) =
       Inr \<lparr> p_bus = utilization_spec (toNumber b (t_bus (res_totals v)))
                       (toNumber b (t_bus (res_available v))),
             p_mobil = utilization_spec (toNumber b (t_mobil (res_totals v)))
                         (toNumber b (t_mobil (res_available v))),
             p_motor = utilization_spec (toNumber b (t_motor (res_totals v)))
                         (toNumber b (t_motor (res_available v))),
             p_overall = utilization_spec (toNumber b (sum_values b (res_totals v)))
                           (toNumber b (sum_values b (res_available v))) \<rparr>"
    using updateStatistics_spec
      [of "v\<lparr>res_utilization := res_utilization new_validator\<rparr>" b cfg now data]
    by simp
  have k: "getTopUtilizedLocations b data n =
       Inr (take n (sort_by_utilization b
              (filter (\<lambda>x. num_gt (toNumber b (te_capacity x)) (Fin 0))
                 (map (\<lambda>loc. \<lparr> te_name = name loc, te_capacity = totalCapacity b loc,
                                 te_available = totalAvailable b loc,
                                 te_utilization =
                                   toFixed1 b
                                     (utilization_spec (toNumber b (totalCapacity b loc))
                                        (toNumber b (totalAvailable b loc))) \<rparr>)
                    (locations data)))))"
    by (simp add: getTopUtilizedLocations_def top_entries_spec)
  from generateRecommendations_spec [of b cfg loc] s u k show ?thesis by blast
qed

text \<open>
  In the arithmetic of doubles: a slot with 80 places of which 29 are free has the
  utilization \<open>63.74999999999999\<close>, printed as \<open>63.7\<close>, and a slot with 80 places of
  which 3 are free is recommended for more capacity.
\<close>

lemma utilization_of_doubles:
  "toFixed1 ref_builtins (utilization_spec (Fin 80) (Fin 29)) = ''63.7''
   \<and> generateRecommendations ref_builtins default_config
        (example_location ''A'' (num_slot 80 3) (num_slot 10 10) (num_slot 0 0))
     = Inr [''bus: Critical utilization (96.3%) - Consider adding capacity'',
            ''motor: No capacity defined - Consider adding parking spaces'']"
  by code_simp

text \<open>
  In a run the percentages are those of the constructor until \<open>updateStatistics\<close>
  assigns them: in the state a run ends with, each percentage is the utilization of
  the totals of that state.
\<close>

lemma process_type_utilization:
  "process_type b cfg ty (loc, li, lf, v) = Inr (loc1, li1, lf1, v1)
   \<Longrightarrow> res_utilization v1 = res_utilization v"
  by (auto simp: process_type_def Let_def split: sum.splits if_splits prod.splits)

lemma process_types_utilization:
  "process_types b cfg tys (loc, li, lf, v) = Inr (loc1, li1, lf1, v1)
   \<Longrightarrow> res_utilization v1 = res_utilization v"
proof (induction tys arbitrary: loc li lf v)
  case Nil
  then show ?case by simp
next
  case (Cons ty tys)
  from Cons.prems obtain loc2 li2 lf2 v2 where
    one: "process_type b cfg ty (loc, li, lf, v) = Inr (loc2, li2, lf2, v2)"
    and more: "process_types b cfg tys (loc2, li2, lf2, v2) = Inr (loc1, li1, lf1, v1)"
    by (auto split: sum.splits)
  from Cons.IH [OF more] process_type_utilization [OF one] show ?case by simp
qed

lemma process_location_utilization:
  assumes "process_location b cfg now loc v = Inr (loc2, v2)"
  shows "res_utilization v2 = res_utilization v"
proof -
  from assms obtain loc1 li lf v1 where
    tys: "process_types b cfg allowedVehicleTypes
            (loc, [], [], v\<lparr>locationsProcessed := locationsProcessed v + 1\<rparr>)
          = Inr (loc1, li, lf, v1)"
    by (auto simp: process_location_def split: sum.splits)
  from process_types_utilization [OF tys]
  have "res_utilization v1 = res_utilization v" by simp
  with assms tys show ?thesis
    by (auto simp: process_location_def Let_def split: sum.splits if_splits)
qed

lemma processBatch_utilization:
  "processBatch b cfg now locs v = Inr (locs', v')
   \<Longrightarrow> res_utilization v' = res_utilization v"
proof (induction locs arbitrary: v locs')
  case Nil
  then show ?case by simp
next
  case (Cons loc locs)
  from Cons.prems obtain loc1 v1 rest where
    one: "process_location b cfg now loc v = Inr (loc1, v1)"
    and more: "processBatch b cfg now locs v1 = Inr (rest, v')"
    by (auto split: sum.splits)
  from Cons.IH [OF more] process_location_utilization [OF one] show ?case by simp
qed

lemma updateStatistics_state:
  assumes "updateStatistics b cfg now data v = Inr (data1, v1)"
    and "res_utilization v = res_utilization new_validator"
  shows "res_utilization v1 =
     \<lparr> p_bus = utilization_spec (toNumber b (t_bus (res_totals v1)))
                 (toNumber b (t_bus (res_available v1))),
       p_mobil = utilization_spec (toNumber b (t_mobil (res_totals v1)))
                   (toNumber b (t_mobil (res_available v1))),
       p_motor = utilization_spec (toNumber b (t_motor (res_totals v1)))
                   (toNumber b (t_motor (res_available v1))),
       p_overall = utilization_spec (toNumber b (t_total (res_totals v1)))
                     (toNumber b (t_total (res_available v1))) \<rparr>"
proof -
  from assms(1) have t: "res_totals v1 = (res_totals v)\<lparr>t_total := sum_values b (res_totals v)\<rparr>"
    and a: "res_available v1 = (res_available v)\<lparr>t_total := sum_values b (res_available v)\<rparr>"
    by (auto simp: updateStatistics_def Let_def split: sum.splits)
  from updateStatistics_spec [OF assms(2), of b cfg now data] assms(1) t a
  show ?thesis by simp
qed

lemma run_utilization:
  assumes "validate b cfg ck fs = Some (Inr r, fs')"
  shows "res_utilization (rr_validator r) =
     \<lparr> p_bus = utilization_spec (toNumber b (t_bus (res_totals (rr_validator r))))
                 (toNumber b (t_bus (res_available (rr_validator r)))),
       p_mobil = utilization_spec (toNumber b (t_mobil (res_totals (rr_validator r))))
                   (toNumber b (t_mobil (res_available (rr_validator r)))),
       p_motor = utilization_spec (toNumber b (t_motor (res_totals (rr_validator r))))
                   (toNumber b (t_motor (res_available (rr_validator r)))),
       p_overall = utilization_spec (toNumber b (t_total (res_totals (rr_validator r))))
                     (toNumber b (t_total (res_available (rr_validator r)))) \<rparr>"
proof -
  from validate_result [OF assms] obtain fs1 v1 data data1 v2 fs2 where
    bk: "(if backup cfg then createBackup cfg ck fs new_validator
          else Inr (fs, new_validator)) = Inr (fs1, v1)"
    and pd: "processData b cfg ck data v1 fs1 = Some (Inr (data1, v2, fs2))"
    and rv: "rr_validator r = v2\<lparr>processingTime := finishTime ck - startTime ck\<rparr>"
    by blast
  from bk have u1: "res_utilization v1 = res_utilization new_validator"
    by (auto simp: createBackup_def Let_def split: if_splits option.splits)
  from processData_result [OF pd] obtain locs w where
    pb: "processBatch b cfg (isoNow ck) (locations data) v1 = Inr (locs, w)"
    and us: "updateStatistics b cfg (isoNow ck) (data\<lparr>locations := locs\<rparr>) w = Inr (data1, v2)"
    by blast
  from processBatch_utilization [OF pb] u1
  have "res_utilization w = res_utilization new_validator" by simp
  from updateStatistics_state [OF us this] rv show ?thesis by simp
qed


section \<open>The severity counts of the report\<close>

text \<open>A text that includes another has all its characters.\<close>

lemma str_includes_set: "str_includes s sub \<Longrightarrow> set sub \<subseteq> set s"
proof (induction s)
  case Nil
  then show ?case by simp
next
  case (Cons c cs)
  from Cons.prems have "prefix sub (c # cs) \<or> str_includes cs sub" by simp
  then show ?case
  proof
    assume "prefix sub (c # cs)"
    then show ?thesis by (rule set_mono_prefix)
  next
    assume "str_includes cs sub"
    with Cons.IH show ?thesis by auto
  qed
qed

lemma count_issues_none:
  assumes "\<forall>e\<in>set es. \<forall>s\<in>set (items e). CHR ''W'' \<notin> set s \<and> CHR ''H'' \<notin> set s"
  shows "count_issues ''Warning'' ''High'' es = 0"
proof -
  have "\<not> str_includes s ''Warning'' \<and> \<not> str_includes s ''High''"
    if "CHR ''W'' \<notin> set s \<and> CHR ''H'' \<notin> set s" for s
    using that str_includes_set [of s "''Warning''"] str_includes_set [of s "''High''"]
    by auto
  with assms show ?thesis
    by (auto simp: count_issues_def list_ex_iff filter_empty_conv)
qed

text \<open>
  The issues of \<open>processVehicleType\<close> are made of fixed words, the name of the vehicle
  type and printed numbers: as long as no printed number has a \<open>W\<close> or an \<open>H\<close>, no
  issue has one.
\<close>

lemma processVehicleType_issue_chars:
  assumes W: "\<And>n. CHR ''W'' \<notin> set (num_str b n)"
    and H: "\<And>n. CHR ''H'' \<notin> set (num_str b n)"
    and run: "processVehicleType b cfg loc ty = Inr (loc', res)"
  shows "\<forall>s\<in>set (vt_issues res). CHR ''W'' \<notin> set s \<and> CHR ''H'' \<notin> set s"
proof -
  from run obtain T A where slot: "get_slot loc ty = Slot T A"
    by (cases "get_slot loc ty") (simp_all add: processVehicleType_def)
  have tn: "CHR ''W'' \<notin> set (type_name ty) \<and> CHR ''H'' \<notin> set (type_name ty)"
    by (cases ty) simp_all
  show ?thesis
    unfolding processVehicleType_result(1) [OF slot refl refl run]
    using W H tn by auto
qed

lemma process_type_issues:
  assumes W: "\<And>n. CHR ''W'' \<notin> set (num_str b n)"
    and H: "\<And>n. CHR ''H'' \<notin> set (num_str b n)"
    and run: "process_type b cfg ty (loc, li, lf, v) = Inr (loc1, li1, lf1, v1)"
    and li: "\<forall>s\<in>set li. CHR ''W'' \<notin> set s \<and> CHR ''H'' \<notin> set s"
  shows "(\<forall>s\<in>set li1. CHR ''W'' \<notin> set s \<and> CHR ''H'' \<notin> set s)
         \<and> res_issues v1 = res_issues v"
proof -
  from run obtain loc' res where pv: "processVehicleType b cfg loc ty = Inr (loc', res)"
    by (auto simp: process_type_def split: sum.splits)
  note q = processVehicleType_issue_chars [OF W H pv]
  from run pv have "set li1 \<subseteq> set li \<union> set (vt_issues res)" "res_issues v1 = res_issues v"
    by (auto simp: process_type_def Let_def split: sum.splits if_splits prod.splits)
  with q li show ?thesis by blast
qed

lemma process_types_issues:
  assumes W: "\<And>n. CHR ''W'' \<notin> set (num_str b n)"
    and H: "\<And>n. CHR ''H'' \<notin> set (num_str b n)"
  shows "process_types b cfg tys (loc, li, lf, v) = Inr (loc1, li1, lf1, v1)
         \<Longrightarrow> \<forall>s\<in>set li. CHR ''W'' \<notin> set s \<and> CHR ''H'' \<notin> set s
         \<Longrightarrow> (\<forall>s\<in>set li1. CHR ''W'' \<notin> set s \<and> CHR ''H'' \<notin> set s)
             \<and> res_issues v1 = res_issues v"
proof (induction tys arbitrary: loc li lf v)
  case Nil
  then show ?case by simp
next
  case (Cons ty tys)
  from Cons.prems(1) obtain loc2 li2 lf2 v2 where
    one: "process_type b cfg ty (loc, li, lf, v) = Inr (loc2, li2, lf2, v2)"
    and more: "process_types b cfg tys (loc2, li2, lf2, v2) = Inr (loc1, li1, lf1, v1)"
    by (auto split: sum.splits)
  from process_type_issues [OF W H one Cons.prems(2)]
  have q: "\<forall>s\<in>set li2. CHR ''W'' \<notin> set s \<and> CHR ''H'' \<notin> set s"
    and r: "res_issues v2 = res_issues v"
    by simp_all
  from Cons.IH [OF more q] r show ?case by simp
qed

lemma process_location_issues:
  assumes W: "\<And>n. CHR ''W'' \<notin> set (num_str b n)"
    and H: "\<And>n. CHR ''H'' \<notin> set (num_str b n)"
    and run: "process_location b cfg now loc v = Inr (loc2, v2)"
    and inv: "\<forall>e\<in>set (res_issues v). \<forall>s\<in>set (items e).
                CHR ''W'' \<notin> set s \<and> CHR ''H'' \<notin> set s"
  shows "\<forall>e\<in>set (res_issues v2). \<forall>s\<in>set (items e).
           CHR ''W'' \<notin> set s \<and> CHR ''H'' \<notin> set s"
proof -
  from run obtain loc1 li lf v1 where
    tys: "process_types b cfg allowedVehicleTypes
            (loc, [], [], v\<lparr>locationsProcessed := locationsProcessed v + 1\<rparr>)
          = Inr (loc1, li, lf, v1)"
    by (auto simp: process_location_def split: sum.splits)
  from process_types_issues [OF W H tys]
  have q: "\<forall>s\<in>set li. CHR ''W'' \<notin> set s \<and> CHR ''H'' \<notin> set s"
    and r: "res_issues v1 = res_issues v"
    by simp_all
  from run tys have
    "res_issues v2 = res_issues v1
     \<or> (\<exists>n. res_issues v2 = res_issues v1 @ [\<lparr> at_location = n, items = li \<rparr>])"
    by (auto simp: process_location_def Let_def split: sum.splits if_splits)
  with q r inv show ?thesis by auto
qed

lemma processBatch_issues:
  assumes W: "\<And>n. CHR ''W'' \<notin> set (num_str b n)"
    and H: "\<And>n. CHR ''H'' \<notin> set (num_str b n)"
  shows "processBatch b cfg now locs v = Inr (locs', v')
         \<Longrightarrow> \<forall>e\<in>set (res_issues v). \<forall>s\<in>set (items e).
               CHR ''W'' \<notin> set s \<and> CHR ''H'' \<notin> set s
         \<Longrightarrow> \<forall>e\<in>set (res_issues v'). \<forall>s\<in>set (items e).
               CHR ''W'' \<notin> set s \<and> CHR ''H'' \<notin> set s"
proof (induction locs arbitrary: v locs')
  case Nil
  then show ?case by simp
next
  case (Cons loc locs)
  from Cons.prems(1) obtain loc1 v1 rest where
    one: "process_location b cfg now loc v = Inr (loc1, v1)"
    and more: "processBatch b cfg now locs v1 = Inr (rest, v')"
    by (auto split: sum.splits)
  from Cons.IH [OF more process_location_issues [OF W H one Cons.prems(2)]]
  show ?case .
qed

lemma build_report_warning:
  "build_report b now data v = Inr rep
   \<Longrightarrow> warning (issues_by_severity rep) = count_issues ''Warning'' ''High'' (res_issues v)"
  by (auto simp: build_report_def split: sum.splits)

lemma generateReport_warning:
  "generateReport b ck data v fs = Inr (rep, fs')
   \<Longrightarrow> warning (issues_by_severity rep) = count_issues ''Warning'' ''High'' (res_issues v)"
  by (auto simp: generateReport_def Let_def build_report_warning split: sum.splits)

lemma updateStatistics_issues:
  "updateStatistics b cfg now data v = Inr (data', v') \<Longrightarrow> res_issues v' = res_issues v"
  by (auto simp: updateStatistics_def Let_def split: sum.splits)

lemma createBackup_issues:
  "(if backup cfg then createBackup cfg ck fs new_validator else Inr (fs, new_validator))
     = Inr (fs1, v1) \<Longrightarrow> res_issues v1 = []"
  by (auto simp: createBackup_def new_validator_def Let_def split: if_splits option.splits)

text \<open>The printed numbers of the reference built-ins have digits, a sign and a bar.\<close>

lemma digits_str_digits: "0 \<le> n \<Longrightarrow> c \<in> set (digits_str n) \<Longrightarrow> is_digit c"
proof (induction n rule: digits_str.induct)
  case (1 n)
  show ?case
  proof (cases "n < 10")
    case True
    with 1(2,3) show ?thesis
      by (simp add: digits_str.simps [of n] digit_char_def is_digit_def)
  next
    case False
    with 1 show ?thesis
      by (auto simp: digits_str.simps [of n] digit_char_def is_digit_def)
  qed
qed

lemma ref_num_str_chars:
  "CHR ''W'' \<notin> set (num_str ref_builtins n) \<and> CHR ''H'' \<notin> set (num_str ref_builtins n)"
proof -
  have d: "CHR ''W'' \<notin> set (digits_str k) \<and> CHR ''H'' \<notin> set (digits_str k)" if "0 \<le> k" for k
    using digits_str_digits [OF that, of "CHR ''W''"] digits_str_digits [OF that, of "CHR ''H''"]
    by (auto simp: is_digit_def)
  have i: "CHR ''W'' \<notin> set (int_str k) \<and> CHR ''H'' \<notin> set (int_str k)" for k
    using d [of k] d [of "- k"] by (simp add: int_str_def)
  show ?thesis
    using i by (cases n) (simp_all add: ref_builtins_def ref_num_str_def)
qed

text \<open>
  Claim C10. Provided no printed number has a \<open>W\<close> or an \<open>H\<close> (those of the
  engine are made of digits, a sign, a point, the exponent letter \<open>e\<close> and the words
  \<open>NaN\<close> and \<open>Infinity\<close>), a run that ends with a report has recorded no issue that
  includes \<open>Warning\<close> or \<open>High\<close>, and the report counts no issue of severity
  \<open>warning\<close>.
\<close>

theorem no_warning_severity:
  assumes W: "\<And>n. CHR ''W'' \<notin> set (num_str b n)"
    and H: "\<And>n. CHR ''H'' \<notin> set (num_str b n)"
    and run: "validate b cfg ck fs = Some (Inr r, fs')"
  shows "warning (issues_by_severity (rr_report r)) = 0
         \<and> (\<forall>e\<in>set (res_issues (rr_validator r)). \<forall>s\<in>set (items e).
               \<not> str_includes s ''Warning'' \<and> \<not> str_includes s ''High'')"
proof -
  from validate_result [OF run] obtain fs1 v1 data data1 v2 fs2 fs3 where
    bk: "(if backup cfg then createBackup cfg ck fs new_validator
          else Inr (fs, new_validator)) = Inr (fs1, v1)"
    and pd: "processData b cfg ck data v1 fs1 = Some (Inr (data1, v2, fs2))"
    and gr: "generateReport b ck data1 v2 fs2 = Inr (rr_report r, fs3)"
    and rv: "rr_validator r = v2\<lparr>processingTime := finishTime ck - startTime ck\<rparr>"
    by blast
  from processData_result [OF pd] obtain locs v1' where
    pb: "processBatch b cfg (isoNow ck) (locations data) v1 = Inr (locs, v1')"
    and us: "updateStatistics b cfg (isoNow ck) (data\<lparr>locations := locs\<rparr>) v1' = Inr (data1, v2)"
    by blast
  have "res_issues v1 = []"
    using createBackup_issues [OF bk] .
  then have "\<forall>e\<in>set (res_issues v1). \<forall>s\<in>set (items e).
               CHR ''W'' \<notin> set s \<and> CHR ''H'' \<notin> set s"
    by simp
  from processBatch_issues [OF W H pb this] updateStatistics_issues [OF us]
  have inv: "\<forall>e\<in>set (res_issues v2). \<forall>s\<in>set (items e).
               CHR ''W'' \<notin> set s \<and> CHR ''H'' \<notin> set s"
    by simp
  from gr have "warning (issues_by_severity (rr_report r))
                  = count_issues ''Warning'' ''High'' (res_issues v2)"
    by (rule generateReport_warning)
  with count_issues_none [OF inv]
  have w: "warning (issues_by_severity (rr_report r)) = 0" by simp
  have "\<not> str_includes s ''Warning'' \<and> \<not> str_includes s ''High''"
    if "CHR ''W'' \<notin> set s \<and> CHR ''H'' \<notin> set s" for s
    using that str_includes_set [of s "''Warning''"] str_includes_set [of s "''High''"]
    by auto
  with inv rv w show ?thesis by simp
qed

theorem no_warning_severity_witness:
  "(\<forall>n. CHR ''W'' \<notin> set (num_str ref_builtins n) \<and> CHR ''H'' \<notin> set (num_str ref_builtins n))
   \<and> map_option (\<lambda>r. (warning (issues_by_severity (rr_report r)),
                         map items (res_issues (rr_validator r))))
        (run_outcome (validate ref_builtins dry_config example_clock
           (example_files
              [example_location ''A'' (num_slot 10 12) (num_slot 0 0) (num_slot 0 0)])))
     = Some (0, [[''bus: Available (12) exceeds total (10)'']])"
proof -
  let ?run = "validate ref_builtins dry_config example_clock
           (example_files
              [example_location ''A'' (num_slot 10 12) (num_slot 0 0) (num_slot 0 0)])"
  have i: "map_option (\<lambda>r. map items (res_issues (rr_validator r))) (run_outcome ?run)
             = Some [[''bus: Available (12) exceeds total (10)'']]"
    by code_simp
  then obtain r fs' where run: "?run = Some (Inr r, fs')"
    by (auto simp: run_outcome_def split: option.splits sum.splits)
  from no_warning_severity [OF _ _ run] ref_num_str_chars
  have "warning (issues_by_severity (rr_report r)) = 0" by blast
  with i run ref_num_str_chars show ?thesis
    by (simp add: run_outcome_def)
qed


section \<open>The dry run\<close>

text \<open>
  The time stamp of a run reaches the locations only in the field \<open>lastValidated\<close>:
  the recommendations read the slots, and so a batch processed at another time gives
  the same validator and the same locations but for that field.
\<close>

lemma get_slot_stamp [simp]:
  "get_slot (loc\<lparr>lastValidated := x, validationIssues := n\<rparr>) ty = get_slot loc ty"
  by (cases ty) simp_all
















end
